theory Spec2Isabelle
  imports Main
begin

section \<open>Data model\<close>

text \<open>
  The skill's request handler \<open>webhook\<close> and its background saver \<open>flushMessages\<close>
  (cmd/skill/app.go) are embedded as functions over an explicit store state. Everything the
  two functions reach outside themselves (the store behind the \<open>Store\<close> interface, the
  command parser, the clock and the time zone database) is a parameter, so every theorem
  holds for every store and every parser.
\<close>

subsection \<open>Errors\<close>

text \<open>
  Go error values. \<open>ErrConflict\<close> is the sentinel of package \<open>store\<close>; \<open>ErrWrap\<close> is an
  error that wraps another one (\<open>fmt.Errorf("...%w", err)\<close>), \<open>ErrOther\<close> any unrelated
  error. \<open>errors_Is\<close> follows the chain of wrapped errors as \<open>errors.Is\<close> does.
\<close>

datatype error = ErrConflict | ErrOther string | ErrWrap string error

fun errors_Is :: "error \<Rightarrow> error \<Rightarrow> bool" where
  "errors_Is ErrConflict target = (target = ErrConflict)"
| "errors_Is (ErrOther s) target = (target = ErrOther s)"
| "errors_Is (ErrWrap s e) target = (if target = ErrWrap s e then True else errors_Is e target)"

subsection \<open>Messages and the store\<close>

text \<open>
  \<open>time.Time\<close> is opaque to the handler: an instant is passed along and formatted, never
  computed with. \<open>*time.Location\<close> is likewise only handed from \<open>time.LoadLocation\<close> to
  \<open>Time.In\<close>.
\<close>

type_synonym time = int
type_synonym location = string

record message =
  ID :: int
  Sender :: string
  Recepient :: string
  Time :: time
  Payload :: string

text \<open>
  The \<open>Store\<close> interface. Each method takes the store's state and returns its result with
  the state after the call. A Go result pair \<open>(v, err)\<close> is a sum, \<open>Inl err\<close> when
  \<open>err \<noteq> nil\<close>; \<open>GetMessage\<close> returns a pointer, which may be nil (\<open>None\<close>) also when
  the error is nil. \<open>SaveMessages\<close> is handed the worker's slice and is taken not to write
  into it.
\<close>

record 's store =
  FindRecipient :: "string \<Rightarrow> 's \<Rightarrow> (error + string) \<times> 's"
  ListMessages :: "string \<Rightarrow> 's \<Rightarrow> (error + message list) \<times> 's"
  GetMessage :: "int \<Rightarrow> 's \<Rightarrow> (error + message option) \<times> 's"
  SaveMessages :: "message list \<Rightarrow> 's \<Rightarrow> error option \<times> 's"
  RegisterUser :: "string \<Rightarrow> string \<Rightarrow> 's \<Rightarrow> error option \<times> 's"

text \<open>
  What a run does to the outside, in order: the store methods it calls with their arguments,
  and the messages it sends on \<open>msgChan\<close>.
\<close>

datatype event =
    FindRecipientCall string
  | ListMessagesCall string
  | GetMessageCall int
  | SaveMessagesCall "message list"
  | RegisterUserCall string string
  | ChanSend message

fun is_store_call :: "event \<Rightarrow> bool" where
  "is_store_call (ChanSend m) = False"
| "is_store_call e = True"

fun is_SaveMessages :: "event \<Rightarrow> bool" where
  "is_SaveMessages (SaveMessagesCall ms) = True"
| "is_SaveMessages e = False"

fun is_ChanSend :: "event \<Rightarrow> bool" where
  "is_ChanSend (ChanSend m) = True"
| "is_ChanSend e = False"

subsection \<open>Requests and responses\<close>

text \<open>
  Modelled from the spec: package \<open>internal/models\<close> is not among the sources. The request
  has the fields the handler reads (\<open>req.Request.Type\<close>, \<open>req.Request.Command\<close>,
  \<open>req.Session.New\<close>, \<open>req.Session.User.UserID\<close>, \<open>req.Timezone\<close>), the response the
  fields it writes, and \<open>TypeSimpleUtterance\<close> is the type tag of the accepted request of
  the test.
\<close>

record user =
  UserID :: string

record session =
  New :: bool
  User :: user

record simple_utterance =
  Type :: string
  Command :: string

record request =
  Request :: simple_utterance
  Session :: session
  Timezone :: string

record response_payload =
  Text :: string

record response =
  Response :: response_payload
  Version :: string

definition TypeSimpleUtterance :: string where
  "TypeSimpleUtterance = ''SimpleUtterance''"

text \<open>
  The HTTP request as the handler sees it: the method, and what \<open>json.Decoder.Decode\<close> makes
  of the body.
\<close>

record http_request =
  Method :: string
  Body :: "error + request"

definition MethodPost :: string where
  "MethodPost = ''POST''"

datatype status =
    StatusOK
  | StatusBadRequest
  | StatusMethodNotAllowed
  | StatusUnprocessableEntity
  | StatusInternalServerError

text \<open>
  How a call of the handler ends: with \<open>w.WriteHeader(code)\<close> and no body, with the encoded
  response (status 200; a failure to write it out is only logged), or with a run-time panic
  (index out of range, nil dereference), after which no response is written.
\<close>

datatype outcome = WriteHeader status | Encode response | Panic

fun status_of :: "outcome \<Rightarrow> status option" where
  "status_of (WriteHeader c) = Some c"
| "status_of (Encode r) = Some StatusOK"
| "status_of Panic = None"

fun text_of :: "outcome \<Rightarrow> string option" where
  "text_of (Encode r) = Some (Text (Response r))"
| "text_of out = None"

text \<open>
  The environment of a request: the three parser functions (package \<open>parser\<close> is not among
  the sources), \<open>time.Now()\<close>, \<open>time.LoadLocation\<close>, the clock reading
  \<open>t.In(tz).Clock()\<close> and the text \<open>%s\<close> prints for a \<open>time.Time\<close>.
\<close>

record env =
  ParseSendCommand :: "string \<Rightarrow> string \<times> string"
  ParseReadCommand :: "string \<Rightarrow> int"
  ParseRegisterCommand :: "string \<Rightarrow> string"
  Now :: time
  LoadLocation :: "string \<Rightarrow> error + location"
  Clock :: "time \<Rightarrow> location \<Rightarrow> int \<times> int \<times> int"
  TimeString :: "time \<Rightarrow> string"

section \<open>Strings\<close>

text \<open>
  Go strings are byte sequences; the handler's literals are Russian text in UTF-8 and are
  written out byte by byte. \<open>HasPrefix\<close> is \<open>strings.HasPrefix\<close>.
\<close>

definition HasPrefix :: "string \<Rightarrow> string \<Rightarrow> bool" where
  "HasPrefix s p = (length p \<le> length s \<and> take (length p) s = p)"

text \<open>The three command keywords ("send", "read", "register").\<close>

definition cmd_send :: string where
  "cmd_send = [CHR 0xD0, CHR 0x9E, CHR 0xD1, CHR 0x82, CHR 0xD0, CHR 0xBF, CHR 0xD1, CHR 0x80,
     CHR 0xD0, CHR 0xB0, CHR 0xD0, CHR 0xB2, CHR 0xD1, CHR 0x8C]"

definition cmd_read :: string where
  "cmd_read = [CHR 0xD0, CHR 0x9F, CHR 0xD1, CHR 0x80, CHR 0xD0, CHR 0xBE, CHR 0xD1, CHR 0x87,
     CHR 0xD0, CHR 0xB8, CHR 0xD1, CHR 0x82, CHR 0xD0, CHR 0xB0, CHR 0xD0, CHR 0xB9]"

definition cmd_register :: string where
  "cmd_register = [CHR 0xD0, CHR 0x97, CHR 0xD0, CHR 0xB0, CHR 0xD1, CHR 0x80, CHR 0xD0, CHR 0xB5,
     CHR 0xD0, CHR 0xB3, CHR 0xD0, CHR 0xB8, CHR 0xD1, CHR 0x81, CHR 0xD1, CHR 0x82, CHR 0xD1,
     CHR 0x80, CHR 0xD0, CHR 0xB8, CHR 0xD1, CHR 0x80, CHR 0xD1, CHR 0x83, CHR 0xD0, CHR 0xB9]"

text \<open>The fixed reply texts: message sent, no new messages, no such message, name taken.\<close>

definition text_sent :: string where
  "text_sent = [CHR 0xD0, CHR 0xA1, CHR 0xD0, CHR 0xBE, CHR 0xD0, CHR 0xBE, CHR 0xD0, CHR 0xB1,
     CHR 0xD1, CHR 0x89, CHR 0xD0, CHR 0xB5, CHR 0xD0, CHR 0xBD, CHR 0xD0, CHR 0xB8, CHR 0xD0,
     CHR 0xB5, CHR 0x20, CHR 0xD1, CHR 0x83, CHR 0xD1, CHR 0x81, CHR 0xD0, CHR 0xBF, CHR 0xD0,
     CHR 0xB5, CHR 0xD1, CHR 0x88, CHR 0xD0, CHR 0xBD, CHR 0xD0, CHR 0xBE, CHR 0x20, CHR 0xD0,
     CHR 0xBE, CHR 0xD1, CHR 0x82, CHR 0xD0, CHR 0xBF, CHR 0xD1, CHR 0x80, CHR 0xD0, CHR 0xB0,
     CHR 0xD0, CHR 0xB2, CHR 0xD0, CHR 0xBB, CHR 0xD0, CHR 0xB5, CHR 0xD0, CHR 0xBD, CHR 0xD0,
     CHR 0xBE]"

definition text_no_new :: string where
  "text_no_new = [CHR 0xD0, CHR 0x94, CHR 0xD0, CHR 0xBB, CHR 0xD1, CHR 0x8F, CHR 0x20, CHR 0xD0,
     CHR 0xB2, CHR 0xD0, CHR 0xB0, CHR 0xD1, CHR 0x81, CHR 0x20, CHR 0xD0, CHR 0xBD, CHR 0xD0,
     CHR 0xB5, CHR 0xD1, CHR 0x82, CHR 0x20, CHR 0xD0, CHR 0xBD, CHR 0xD0, CHR 0xBE, CHR 0xD0,
     CHR 0xB2, CHR 0xD1, CHR 0x8B, CHR 0xD1, CHR 0x85, CHR 0x20, CHR 0xD1, CHR 0x81, CHR 0xD0,
     CHR 0xBE, CHR 0xD0, CHR 0xBE, CHR 0xD0, CHR 0xB1, CHR 0xD1, CHR 0x89, CHR 0xD0, CHR 0xB5,
     CHR 0xD0, CHR 0xBD, CHR 0xD0, CHR 0xB8, CHR 0xD0, CHR 0xB9, CHR 0x2E]"

definition text_no_such :: string where
  "text_no_such = [CHR 0xD0, CHR 0xA2, CHR 0xD0, CHR 0xB0, CHR 0xD0, CHR 0xBA, CHR 0xD0, CHR 0xBE,
     CHR 0xD0, CHR 0xB3, CHR 0xD0, CHR 0xBE, CHR 0x20, CHR 0xD1, CHR 0x81, CHR 0xD0, CHR 0xBE,
     CHR 0xD0, CHR 0xBE, CHR 0xD0, CHR 0xB1, CHR 0xD1, CHR 0x89, CHR 0xD0, CHR 0xB5, CHR 0xD0,
     CHR 0xBD, CHR 0xD0, CHR 0xB8, CHR 0xD1, CHR 0x8F, CHR 0x20, CHR 0xD0, CHR 0xBD, CHR 0xD0,
     CHR 0xB5, CHR 0x20, CHR 0xD1, CHR 0x81, CHR 0xD1, CHR 0x83, CHR 0xD1, CHR 0x89, CHR 0xD0,
     CHR 0xB5, CHR 0xD1, CHR 0x81, CHR 0xD1, CHR 0x82, CHR 0xD0, CHR 0xB2, CHR 0xD1, CHR 0x83,
     CHR 0xD0, CHR 0xB5, CHR 0xD1, CHR 0x82, CHR 0x2E]"

definition text_taken :: string where
  "text_taken = [CHR 0xD0, CHR 0x98, CHR 0xD0, CHR 0xB7, CHR 0xD0, CHR 0xB2, CHR 0xD0, CHR 0xB8,
     CHR 0xD0, CHR 0xBD, CHR 0xD0, CHR 0xB8, CHR 0xD1, CHR 0x82, CHR 0xD0, CHR 0xB5, CHR 0x2C,
     CHR 0x20, CHR 0xD1, CHR 0x82, CHR 0xD0, CHR 0xB0, CHR 0xD0, CHR 0xBA, CHR 0xD0, CHR 0xBE,
     CHR 0xD0, CHR 0xB5, CHR 0x20, CHR 0xD0, CHR 0xB8, CHR 0xD0, CHR 0xBC, CHR 0xD1, CHR 0x8F,
     CHR 0x20, CHR 0xD1, CHR 0x83, CHR 0xD0, CHR 0xB6, CHR 0xD0, CHR 0xB5, CHR 0x20, CHR 0xD0,
     CHR 0xB7, CHR 0xD0, CHR 0xB0, CHR 0xD0, CHR 0xBD, CHR 0xD1, CHR 0x8F, CHR 0xD1, CHR 0x82,
     CHR 0xD0, CHR 0xBE, CHR 0x2E, CHR 0x20, CHR 0xD0, CHR 0x9F, CHR 0xD0, CHR 0xBE, CHR 0xD0,
     CHR 0xBF, CHR 0xD1, CHR 0x80, CHR 0xD0, CHR 0xBE, CHR 0xD0, CHR 0xB1, CHR 0xD1, CHR 0x83,
     CHR 0xD0, CHR 0xB9, CHR 0xD1, CHR 0x82, CHR 0xD0, CHR 0xB5, CHR 0x20, CHR 0xD0, CHR 0xB4,
     CHR 0xD1, CHR 0x80, CHR 0xD1, CHR 0x83, CHR 0xD0, CHR 0xB3, CHR 0xD0, CHR 0xBE, CHR 0xD0,
     CHR 0xB5, CHR 0x2E]"

text \<open>The literal pieces of the four \<open>fmt.Sprintf\<close> formats, between their verbs.\<close>

definition fmt_message_1 :: string where
  "fmt_message_1 = [CHR 0xD0, CHR 0xA1, CHR 0xD0, CHR 0xBE, CHR 0xD0, CHR 0xBE, CHR 0xD0, CHR 0xB1,
     CHR 0xD1, CHR 0x89, CHR 0xD0, CHR 0xB5, CHR 0xD0, CHR 0xBD, CHR 0xD0, CHR 0xB8, CHR 0xD0,
     CHR 0xB5, CHR 0x20, CHR 0xD0, CHR 0xBE, CHR 0xD1, CHR 0x82, CHR 0x20]"

definition fmt_message_2 :: string where
  "fmt_message_2 = [CHR 0x2C, CHR 0x20, CHR 0xD0, CHR 0xBE, CHR 0xD1, CHR 0x82, CHR 0xD0, CHR 0xBF,
     CHR 0xD1, CHR 0x80, CHR 0xD0, CHR 0xB0, CHR 0xD0, CHR 0xB2, CHR 0xD0, CHR 0xBB, CHR 0xD0,
     CHR 0xB5, CHR 0xD0, CHR 0xBD, CHR 0xD0, CHR 0xBE, CHR 0x20]"

definition fmt_message_3 :: string where
  "fmt_message_3 = [CHR 0x3A, CHR 0x20]"

definition fmt_registered :: string where
  "fmt_registered = [CHR 0xD0, CHR 0x92, CHR 0xD1, CHR 0x8B, CHR 0x20, CHR 0xD1, CHR 0x83, CHR 0xD1,
     CHR 0x81, CHR 0xD0, CHR 0xBF, CHR 0xD0, CHR 0xB5, CHR 0xD1, CHR 0x88, CHR 0xD0, CHR 0xBD,
     CHR 0xD0, CHR 0xBE, CHR 0x20, CHR 0xD0, CHR 0xB7, CHR 0xD0, CHR 0xB0, CHR 0xD1, CHR 0x80,
     CHR 0xD0, CHR 0xB5, CHR 0xD0, CHR 0xB3, CHR 0xD0, CHR 0xB8, CHR 0xD1, CHR 0x81, CHR 0xD1,
     CHR 0x82, CHR 0xD1, CHR 0x80, CHR 0xD0, CHR 0xB8, CHR 0xD1, CHR 0x80, CHR 0xD0, CHR 0xBE,
     CHR 0xD0, CHR 0xB2, CHR 0xD0, CHR 0xB0, CHR 0xD0, CHR 0xBD, CHR 0xD1, CHR 0x8B, CHR 0x20,
     CHR 0xD0, CHR 0xBF, CHR 0xD0, CHR 0xBE, CHR 0xD0, CHR 0xB4, CHR 0x20, CHR 0xD0, CHR 0xB8,
     CHR 0xD0, CHR 0xBC, CHR 0xD0, CHR 0xB5, CHR 0xD0, CHR 0xBD, CHR 0xD0, CHR 0xB5, CHR 0xD0,
     CHR 0xBC, CHR 0x20]"

definition fmt_count_1 :: string where
  "fmt_count_1 = [CHR 0xD0, CHR 0x94, CHR 0xD0, CHR 0xBB, CHR 0xD1, CHR 0x8F, CHR 0x20, CHR 0xD0,
     CHR 0xB2, CHR 0xD0, CHR 0xB0, CHR 0xD1, CHR 0x81, CHR 0x20]"

definition fmt_count_2 :: string where
  "fmt_count_2 = [CHR 0x20, CHR 0xD0, CHR 0xBD, CHR 0xD0, CHR 0xBE, CHR 0xD0, CHR 0xB2, CHR 0xD1,
     CHR 0x8B, CHR 0xD1, CHR 0x85, CHR 0x20, CHR 0xD1, CHR 0x81, CHR 0xD0, CHR 0xBE, CHR 0xD0,
     CHR 0xBE, CHR 0xD0, CHR 0xB1, CHR 0xD1, CHR 0x89, CHR 0xD0, CHR 0xB5, CHR 0xD0, CHR 0xBD,
     CHR 0xD0, CHR 0xB8, CHR 0xD0, CHR 0xB9, CHR 0x2E]"

definition fmt_greeting_1 :: string where
  "fmt_greeting_1 = [CHR 0xD0, CHR 0xA2, CHR 0xD0, CHR 0xBE, CHR 0xD1, CHR 0x87, CHR 0xD0, CHR 0xBD,
     CHR 0xD0, CHR 0xBE, CHR 0xD0, CHR 0xB5, CHR 0x20, CHR 0xD0, CHR 0xB2, CHR 0xD1, CHR 0x80,
     CHR 0xD0, CHR 0xB5, CHR 0xD0, CHR 0xBC, CHR 0xD1, CHR 0x8F, CHR 0x20]"

definition fmt_greeting_2 :: string where
  "fmt_greeting_2 = [CHR 0x20, CHR 0xD1, CHR 0x87, CHR 0xD0, CHR 0xB0, CHR 0xD1, CHR 0x81, CHR 0xD0,
     CHR 0xBE, CHR 0xD0, CHR 0xB2, CHR 0x2C, CHR 0x20]"

definition fmt_greeting_3 :: string where
  "fmt_greeting_3 = [CHR 0x20, CHR 0xD0, CHR 0xBC, CHR 0xD0, CHR 0xB8, CHR 0xD0, CHR 0xBD, CHR 0xD1,
     CHR 0x83, CHR 0xD1, CHR 0x82, CHR 0x2E, CHR 0x20]"

text \<open>The verb \<open>%d\<close>: an integer in decimal.\<close>

definition digit_char :: "nat \<Rightarrow> char" where
  "digit_char d = char_of (48 + d)"

function decimal :: "nat \<Rightarrow> string" where
  "decimal n = (if n < 10 then [digit_char n] else decimal (n div 10) @ [digit_char (n mod 10)])"
  by pat_completeness auto
termination
  by (relation "measure id") auto

definition fmt_d :: "int \<Rightarrow> string" where
  "fmt_d i = (if i < 0 then CHR ''-'' # decimal (nat (- i)) else decimal (nat i))"

text \<open>The four formatted texts: a message read out, a registration, a count, the greeting.\<close>

definition sprintf_message :: "env \<Rightarrow> message \<Rightarrow> string" where
  "sprintf_message env m =
     fmt_message_1 @ Sender m @ fmt_message_2 @ TimeString env (Time m) @ fmt_message_3 @ Payload m"

definition sprintf_registered :: "string \<Rightarrow> string" where
  "sprintf_registered username = fmt_registered @ username"

definition sprintf_count :: "int \<Rightarrow> string" where
  "sprintf_count n = fmt_count_1 @ fmt_d n @ fmt_count_2"

definition sprintf_greeting :: "int \<Rightarrow> int \<Rightarrow> string \<Rightarrow> string" where
  "sprintf_greeting hour minute text =
     fmt_greeting_1 @ fmt_d hour @ fmt_greeting_2 @ fmt_d minute @ fmt_greeting_3 @ text"

section \<open>The request handler\<close>

text \<open>The end of \<open>webhook\<close>: the response model is filled in and encoded.\<close>

definition respond :: "string \<Rightarrow> outcome" where
  "respond text = Encode \<lparr>Response = \<lparr>Text = text\<rparr>, Version = ''1.0''\<rparr>"

text \<open>\<open>messages[i]\<close> on a Go slice: a run-time panic outside \<open>0 \<le> i < len(messages)\<close>.\<close>

definition slice_index :: "'a list \<Rightarrow> int \<Rightarrow> 'a option" where
  "slice_index xs i = (if 0 \<le> i \<and> i < int (length xs) then Some (xs ! nat i) else None)"

text \<open>
  Each case of the handler's \<open>switch\<close> returns how the call ends, the events of the call in
  order, and the store's state after it.
\<close>

definition webhook_send :: "'s store \<Rightarrow> env \<Rightarrow> request \<Rightarrow> 's \<Rightarrow> outcome \<times> event list \<times> 's" where
  "webhook_send st env req s =
     (case ParseSendCommand env (Command (Request req)) of (username, message) \<Rightarrow>
        (case FindRecipient st username s of
           (Inl err, s1) \<Rightarrow>
             (WriteHeader StatusInternalServerError, [FindRecipientCall username], s1)
         | (Inr recipientID, s1) \<Rightarrow>
             (respond text_sent,
              [FindRecipientCall username,
               ChanSend \<lparr>ID = 0, Sender = UserID (User (Session req)), Recepient = recipientID,
                         Time = Now env, Payload = message\<rparr>],
              s1)))"

definition webhook_read :: "'s store \<Rightarrow> env \<Rightarrow> request \<Rightarrow> 's \<Rightarrow> outcome \<times> event list \<times> 's" where
  "webhook_read st env req s =
     (let messageIndex = ParseReadCommand env (Command (Request req));
          userID = UserID (User (Session req))
      in case ListMessages st userID s of
           (Inl err, s1) \<Rightarrow> (WriteHeader StatusInternalServerError, [ListMessagesCall userID], s1)
         | (Inr messages, s1) \<Rightarrow>
             if int (length messages) < messageIndex
             then (respond text_no_such, [ListMessagesCall userID], s1)
             else (case slice_index messages messageIndex of
                     None \<Rightarrow> (Panic, [ListMessagesCall userID], s1)
                   | Some m \<Rightarrow>
                       (case GetMessage st (ID m) s1 of
                          (Inl err, s2) \<Rightarrow>
                            (WriteHeader StatusInternalServerError,
                             [ListMessagesCall userID, GetMessageCall (ID m)], s2)
                        | (Inr None, s2) \<Rightarrow>
                            (Panic, [ListMessagesCall userID, GetMessageCall (ID m)], s2)
                        | (Inr (Some message), s2) \<Rightarrow>
                            (respond (sprintf_message env message),
                             [ListMessagesCall userID, GetMessageCall (ID m)], s2))))"

definition webhook_register :: "'s store \<Rightarrow> env \<Rightarrow> request \<Rightarrow> 's \<Rightarrow> outcome \<times> event list \<times> 's" where
  "webhook_register st env req s =
     (let username = ParseRegisterCommand env (Command (Request req));
          userID = UserID (User (Session req))
      in case RegisterUser st userID username s of
           (None, s1) \<Rightarrow> (respond (sprintf_registered username), [RegisterUserCall userID username], s1)
         | (Some err, s1) \<Rightarrow>
             if errors_Is err ErrConflict
             then (respond text_taken, [RegisterUserCall userID username], s1)
             else (WriteHeader StatusInternalServerError, [RegisterUserCall userID username], s1))"

definition count_text :: "message list \<Rightarrow> string" where
  "count_text messages =
     (if length messages > 0 then sprintf_count (int (length messages)) else text_no_new)"

definition webhook_default :: "'s store \<Rightarrow> env \<Rightarrow> request \<Rightarrow> 's \<Rightarrow> outcome \<times> event list \<times> 's" where
  "webhook_default st env req s =
     (let userID = UserID (User (Session req))
      in case ListMessages st userID s of
           (Inl err, s1) \<Rightarrow> (WriteHeader StatusInternalServerError, [ListMessagesCall userID], s1)
         | (Inr messages, s1) \<Rightarrow>
             if New (Session req)
             then (case LoadLocation env (Timezone req) of
                     Inl err \<Rightarrow> (WriteHeader StatusBadRequest, [ListMessagesCall userID], s1)
                   | Inr tz \<Rightarrow>
                       (case Clock env (Now env) tz of (hour, minute, sec) \<Rightarrow>
                          (respond (sprintf_greeting hour minute (count_text messages)),
                           [ListMessagesCall userID], s1)))
             else (respond (count_text messages), [ListMessagesCall userID], s1))"

definition webhook :: "'s store \<Rightarrow> env \<Rightarrow> http_request \<Rightarrow> 's \<Rightarrow> outcome \<times> event list \<times> 's" where
  "webhook st env r s =
     (if Method r \<noteq> MethodPost then (WriteHeader StatusMethodNotAllowed, [], s)
      else case Body r of
             Inl err \<Rightarrow> (WriteHeader StatusInternalServerError, [], s)
           | Inr req \<Rightarrow>
               if Type (Request req) \<noteq> TypeSimpleUtterance
               then (WriteHeader StatusUnprocessableEntity, [], s)
               else if HasPrefix (Command (Request req)) cmd_send then webhook_send st env req s
               else if HasPrefix (Command (Request req)) cmd_read then webhook_read st env req s
               else if HasPrefix (Command (Request req)) cmd_register
               then webhook_register st env req s
               else webhook_default st env req s)"

section \<open>The background saver\<close>

text \<open>
  One turn of the \<open>for\<close>/\<open>select\<close> loop of \<open>flushMessages\<close>, given the case the
  \<open>select\<close> took: a message received from \<open>msgChan\<close>, or a tick of the ticker. The state of
  the loop is its local slice \<open>messages\<close> and the store.
\<close>

datatype select_case = RecvCase message | TickerCase

definition flush_turn ::
  "'s store \<Rightarrow> select_case \<Rightarrow> message list \<times> 's \<Rightarrow> (message list \<times> 's) \<times> event list" where
  "flush_turn st c ms_s =
     (case ms_s of (messages, s) \<Rightarrow>
        (case c of
           RecvCase msg \<Rightarrow> ((messages @ [msg], s), [])
         | TickerCase \<Rightarrow>
             if length messages = 0 then ((messages, s), [])
             else (case SaveMessages st messages s of
                     (Some err, s1) \<Rightarrow> ((messages, s1), [SaveMessagesCall messages])
                   | (None, s1) \<Rightarrow> (([], s1), [SaveMessagesCall messages]))))"

text \<open>
  The loop never ends; a run of it is followed along a finite sequence of \<open>select\<close>
  outcomes, from a given slice and store state, collecting the events.
\<close>

fun flush_loop ::
  "'s store \<Rightarrow> select_case list \<Rightarrow> message list \<times> 's \<Rightarrow> (message list \<times> 's) \<times> event list" where
  "flush_loop st [] ms_s = (ms_s, [])"
| "flush_loop st (c # cs) ms_s =
     (case flush_turn st c ms_s of (ms_s1, evs1) \<Rightarrow>
        (case flush_loop st cs ms_s1 of (ms_s2, evs2) \<Rightarrow> (ms_s2, evs1 @ evs2)))"

text \<open>\<open>flushMessages\<close> starts with \<open>var messages []store.Message\<close>, the empty slice.\<close>

definition flushMessages ::
  "'s store \<Rightarrow> select_case list \<Rightarrow> 's \<Rightarrow> (message list \<times> 's) \<times> event list" where
  "flushMessages st cs s = flush_loop st cs ([], s)"

section \<open>The channel between the handler and the saver\<close>

text \<open>
  \<open>newApp\<close> makes \<open>msgChan\<close> with a buffer of 1024 messages. The handler's send
  \<open>a.msgChan <- m\<close> puts a message at the back of the buffer and cannot happen while the
  buffer is full; the saver's receive takes the message at the front and cannot happen while
  the buffer is empty. A \<open>select\<close> with several ready cases takes any one of them, so a
  tick may be taken while messages wait in the buffer.

  The application as a whole moves in steps: a handler performs the next of its events (a
  store call, which leaves the store in the state the method returns, or its send on the
  channel), or the saver's \<open>select\<close> takes its receive case, or its ticker case. The state
  is the buffer of the channel, the saver's slice and the store. A step that cannot happen
  in a state has no result.
\<close>

definition msgChan_cap :: nat where
  "msgChan_cap = 1024"

datatype step = Handler event | Receive | Fire

fun after_call :: "'s store \<Rightarrow> event \<Rightarrow> 's \<Rightarrow> 's" where
  "after_call st (FindRecipientCall username) s = snd (FindRecipient st username s)"
| "after_call st (ListMessagesCall userID) s = snd (ListMessages st userID s)"
| "after_call st (GetMessageCall i) s = snd (GetMessage st i s)"
| "after_call st (SaveMessagesCall ms) s = snd (SaveMessages st ms s)"
| "after_call st (RegisterUserCall userID username) s = snd (RegisterUser st userID username s)"
| "after_call st (ChanSend m) s = s"

fun app_step ::
  "'s store \<Rightarrow> step \<Rightarrow> message list \<times> message list \<times> 's
     \<Rightarrow> ((message list \<times> message list \<times> 's) \<times> event list) option" where
  "app_step st (Handler (ChanSend m)) (chan, messages, s) =
     (if length chan < msgChan_cap then Some ((chan @ [m], messages, s), [ChanSend m]) else None)"
| "app_step st (Handler e) (chan, messages, s) = Some ((chan, messages, after_call st e s), [e])"
| "app_step st Receive ([], messages, s) = None"
| "app_step st Receive (msg # chan, messages, s) =
     (case flush_turn st (RecvCase msg) (messages, s) of
        ((messages1, s1), evs) \<Rightarrow> Some ((chan, messages1, s1), evs))"
| "app_step st Fire (chan, messages, s) =
     (case flush_turn st TickerCase (messages, s) of
        ((messages1, s1), evs) \<Rightarrow> Some ((chan, messages1, s1), evs))"

fun app_run ::
  "'s store \<Rightarrow> step list \<Rightarrow> message list \<times> message list \<times> 's
     \<Rightarrow> ((message list \<times> message list \<times> 's) \<times> event list) option" where
  "app_run st [] c = Some (c, [])"
| "app_run st (x # xs) c =
     (case app_step st x c of
        None \<Rightarrow> None
      | Some (c1, evs1) \<Rightarrow>
          (case app_run st xs c1 of
             None \<Rightarrow> None
           | Some (c2, evs2) \<Rightarrow> Some (c2, evs1 @ evs2)))"

text \<open>The messages sent on the channel in a sequence of events, in the order of the sends.\<close>

fun chan_sends :: "event list \<Rightarrow> message list" where
  "chan_sends [] = []"
| "chan_sends (ChanSend m # evs) = m # chan_sends evs"
| "chan_sends (e # evs) = chan_sends evs"

section \<open>A store in memory\<close>

text \<open>
  A small store to run the handler and the saver on: registered users by name, the saved
  messages, and a switch that makes every method fail while the store is down.
\<close>

record mem =
  users :: "(string \<times> string) list"
  inbox :: "message list"
  online :: bool

definition mem_store :: "mem store" where
  "mem_store =
     \<lparr>FindRecipient = (\<lambda>username s.
        if online s
        then (case map_of (users s) username of
                None \<Rightarrow> (Inl (ErrOther ''no such user''), s)
              | Some userID \<Rightarrow> (Inr userID, s))
        else (Inl (ErrOther ''store is down''), s)),
      ListMessages = (\<lambda>userID s.
        if online s then (Inr (filter (\<lambda>m. Recepient m = userID) (inbox s)), s)
        else (Inl (ErrOther ''store is down''), s)),
      GetMessage = (\<lambda>i s.
        if online s
        then (case find (\<lambda>m. ID m = i) (inbox s) of
                None \<Rightarrow> (Inl (ErrOther ''no such message''), s)
              | Some m \<Rightarrow> (Inr (Some m), s))
        else (Inl (ErrOther ''store is down''), s)),
      SaveMessages = (\<lambda>ms s.
        if online s then (None, s\<lparr>inbox := inbox s @ ms\<rparr>)
        else (Some (ErrOther ''store is down''), s)),
      RegisterUser = (\<lambda>userID username s.
        if online s
        then (case map_of (users s) username of
                None \<Rightarrow> (None, s\<lparr>users := users s @ [(username, userID)]\<rparr>)
              | Some u \<Rightarrow> (Some ErrConflict, s))
        else (Some (ErrOther ''store is down''), s))\<rparr>"

text \<open>
  An environment whose parser returns fixed results (the read index is a parameter), whose
  only time zone is UTC and whose clock reads an instant as seconds since midnight.
\<close>

definition demo_env :: "int \<Rightarrow> env" where
  "demo_env i =
     \<lparr>ParseSendCommand = (\<lambda>cmd. (''bob'', ''hello'')),
      ParseReadCommand = (\<lambda>cmd. i),
      ParseRegisterCommand = (\<lambda>cmd. ''carol''),
      Now = 45296,
      LoadLocation = (\<lambda>name.
        if name = ''UTC'' then Inr ''UTC'' else Inl (ErrOther ''unknown time zone'')),
      Clock = (\<lambda>t tz. (t div 3600 mod 24, t div 60 mod 60, t mod 60)),
      TimeString = fmt_d\<rparr>"

definition utterance :: "string \<Rightarrow> bool \<Rightarrow> string \<Rightarrow> string \<Rightarrow> request" where
  "utterance userID new tz cmd =
     \<lparr>Request = \<lparr>Type = TypeSimpleUtterance, Command = cmd\<rparr>,
      Session = \<lparr>New = new, User = \<lparr>UserID = userID\<rparr>\<rparr>,
      Timezone = tz\<rparr>"

definition post :: "request \<Rightarrow> http_request" where
  "post req = \<lparr>Method = MethodPost, Body = Inr req\<rparr>"

definition hello :: message where
  "hello = \<lparr>ID = 7, Sender = ''u-alice'', Recepient = ''u-bob'', Time = 100, Payload = ''Hello!''\<rparr>"

definition again :: message where
  "again = \<lparr>ID = 0, Sender = ''u-bob'', Recepient = ''u-alice'', Time = 200, Payload = ''Hi''\<rparr>"

definition mem0 :: mem where
  "mem0 = \<lparr>users = [(''alice'', ''u-alice''), (''bob'', ''u-bob'')], inbox = [hello], online = True\<rparr>"

text \<open>The first four bytes of every greeting.\<close>

definition greeting_start :: string where
  "greeting_start = [CHR 0xD0, CHR 0xA2, CHR 0xD0, CHR 0xBE]"

section \<open>Properties of the background saver\<close>

lemma flush_loop_Cons_fst:
  "fst (flush_loop st (c # cs) b) = fst (flush_loop st cs (fst (flush_turn st c b)))"
  by (simp add: case_prod_beta)

lemma flush_loop_Cons_snd:
  "snd (flush_loop st (c # cs) b) =
     snd (flush_turn st c b) @ snd (flush_loop st cs (fst (flush_turn st c b)))"
  by (simp add: case_prod_beta)

lemma flush_loop_append_fst:
  "fst (flush_loop st (cs @ ds) b) = fst (flush_loop st ds (fst (flush_loop st cs b)))"
  by (induction cs arbitrary: b) (simp_all add: case_prod_beta)

lemma flush_loop_append_snd:
  "snd (flush_loop st (cs @ ds) b) =
     snd (flush_loop st cs b) @ snd (flush_loop st ds (fst (flush_loop st cs b)))"
  by (induction cs arbitrary: b) (simp_all add: case_prod_beta)

text \<open>Receiving appends to the slice in the order of receipt and calls nothing.\<close>

lemma flush_loop_recv:
  "flush_loop st (map RecvCase new) (messages, s) = ((messages @ new, s), [])"
  by (induction new arbitrary: messages) (simp_all add: flush_turn_def)

lemma flush_turn_tick_empty:
  "flush_turn st TickerCase ([], s) = (([], s), [])"
  by (simp add: flush_turn_def)


lemma flush_turn_tick_ok:
  "messages \<noteq> [] \<Longrightarrow> SaveMessages st messages s = (None, s1) \<Longrightarrow>
   flush_turn st TickerCase (messages, s) = (([], s1), [SaveMessagesCall messages])"
  by (simp add: flush_turn_def)

lemma flush_turn_tick_events:
  "messages \<noteq> [] \<Longrightarrow> snd (flush_turn st TickerCase (messages, s)) = [SaveMessagesCall messages]"
  by (simp add: flush_turn_def split: prod.splits option.splits)

lemma flush_turn_events:
  "snd (flush_turn st c (messages, s))
     = (if c = TickerCase \<and> messages \<noteq> [] then [SaveMessagesCall messages] else [])"
  by (cases c) (simp_all add: flush_turn_def split: prod.splits option.splits)



text \<open>
  C8 (empty-batch skip). A tick that finds the slice empty calls no store method, and leaves
  the slice and the store as they were: the loop goes on as if the tick had not happened.
  This holds from the start of \<open>flushMessages\<close> too, where the slice is empty.
\<close>

theorem empty_batch_skip:
  "flush_turn st TickerCase ([], s) = (([], s), [])
   \<and> flush_loop st (TickerCase # cs) ([], s) = flush_loop st cs ([], s)
   \<and> flushMessages st (TickerCase # cs) s = flushMessages st cs s"
  by (simp add: flush_turn_tick_empty flushMessages_def)

theorem empty_batch_skip_witness:
  "flushMessages mem_store [TickerCase] mem0 = (([], mem0), [])"
  using empty_batch_skip [of mem_store mem0 "[]"] by (simp add: flushMessages_def)



text \<open>
  What the loop does with the messages it has received between two ticks: the later tick
  makes exactly one store call, \<open>SaveMessages\<close> with what the earlier tick left in the slice
  followed by the received messages in their order, and a successful call empties the slice.
\<close>

lemma received_batch_written_once:
  assumes "new \<noteq> []"
  shows "snd (flush_loop st (map RecvCase new @ [TickerCase]) (batch, s))
           = [SaveMessagesCall (batch @ new)]
       \<and> (\<forall>s1. SaveMessages st (batch @ new) s = (None, s1) \<longrightarrow>
             fst (flush_loop st (map RecvCase new @ [TickerCase]) (batch, s)) = ([], s1))
       \<and> snd (flushMessages st (map RecvCase new @ [TickerCase]) s) = [SaveMessagesCall new]
       \<and> snd (flushMessages st (TickerCase # map RecvCase new @ [TickerCase]) s)
           = [SaveMessagesCall new]
       \<and> (\<forall>old s0. old \<noteq> [] \<and> SaveMessages st old s0 = (None, s) \<longrightarrow>
             snd (flush_loop st (TickerCase # map RecvCase new @ [TickerCase]) (old, s0))
               = [SaveMessagesCall old, SaveMessagesCall new])"
proof -
  have ne: "b @ new \<noteq> []" for b :: "message list"
    using assms by simp
  have ev: "snd (flush_loop st (map RecvCase new @ [TickerCase]) (b, s))
      = [SaveMessagesCall (b @ new)]" for b
    using flush_turn_tick_events [OF ne, of st b s]
    by (simp add: flush_loop_append_snd flush_loop_recv flush_loop_Cons_snd
        del: flush_loop.simps(2))
  have ok: "fst (flush_loop st (map RecvCase new @ [TickerCase]) (batch, s)) = ([], s1)"
    if "SaveMessages st (batch @ new) s = (None, s1)" for s1
    using flush_turn_tick_ok [OF ne that]
    by (simp add: flush_loop_append_fst flush_loop_recv flush_loop_Cons_fst
        del: flush_loop.simps(2))
  have skipped: "snd (flush_loop st (TickerCase # map RecvCase new @ [TickerCase]) ([], s))
      = [SaveMessagesCall new]"
    using ev [of "[]"] by (simp add: flush_loop_Cons_snd flush_turn_tick_empty del: flush_loop.simps(2))
  have saved: "snd (flush_loop st (TickerCase # map RecvCase new @ [TickerCase]) (old, s0))
      = [SaveMessagesCall old, SaveMessagesCall new]"
    if "old \<noteq> []" and "SaveMessages st old s0 = (None, s)" for old s0
    using ev [of "[]"] flush_turn_tick_ok [OF that]
    by (simp add: flush_loop_Cons_snd del: flush_loop.simps(2))
  show ?thesis
    using ev [of batch] ev [of "[]"] ok skipped saved by (simp add: flushMessages_def)
qed

section \<open>Properties of the handler and the saver together\<close>






text \<open>
  The events of a call of the handler, performed as steps of the application, leave the
  store as the call returns it and put the messages the call sends at the back of the
  buffer, provided the buffer has room for them.
\<close>

lemma webhook_send_steps:
  assumes "webhook_send st env req s = (out, evs, s1)"
    and "length chan + length (chan_sends evs) \<le> msgChan_cap"
  shows "app_run st (map Handler evs) (chan, messages, s)
           = Some ((chan @ chan_sends evs, messages, s1), evs)"
  using assms by (auto simp: webhook_send_def split: prod.splits sum.splits)

lemma webhook_read_steps:
  assumes "webhook_read st env req s = (out, evs, s1)"
  shows "app_run st (map Handler evs) (chan, messages, s)
           = Some ((chan @ chan_sends evs, messages, s1), evs)"
  using assms
  by (auto simp: webhook_read_def Let_def split: prod.splits sum.splits option.splits if_splits)

lemma webhook_register_steps:
  assumes "webhook_register st env req s = (out, evs, s1)"
  shows "app_run st (map Handler evs) (chan, messages, s)
           = Some ((chan @ chan_sends evs, messages, s1), evs)"
  using assms
  by (auto simp: webhook_register_def Let_def split: prod.splits option.splits if_splits)

lemma webhook_default_steps:
  assumes "webhook_default st env req s = (out, evs, s1)"
  shows "app_run st (map Handler evs) (chan, messages, s)
           = Some ((chan @ chan_sends evs, messages, s1), evs)"
  using assms
  by (auto simp: webhook_default_def Let_def split: prod.splits sum.splits if_splits)

lemma webhook_steps:
  assumes "webhook st env r s = (out, evs, s1)"
    and "length chan + length (chan_sends evs) \<le> msgChan_cap"
  shows "app_run st (map Handler evs) (chan, messages, s)
           = Some ((chan @ chan_sends evs, messages, s1), evs)"
proof -
  consider (none) "evs = []" "s1 = s"
    | (send) req where "webhook_send st env req s = (out, evs, s1)"
    | (read) req where "webhook_read st env req s = (out, evs, s1)"
    | (register) req where "webhook_register st env req s = (out, evs, s1)"
    | (default) req where "webhook_default st env req s = (out, evs, s1)"
    using assms(1) by (auto simp: webhook_def split: if_splits sum.splits)
  then show ?thesis
  proof cases
    case none
    then show ?thesis by simp
  next
    case send
    then show ?thesis using assms(2) by (rule webhook_send_steps)
  next
    case read
    then show ?thesis by (rule webhook_read_steps)
  next
    case register
    then show ?thesis by (rule webhook_register_steps)
  next
    case default
    then show ?thesis by (rule webhook_default_steps)
  qed
qed




section \<open>Properties of the request handler\<close>

subsection \<open>Dispatch on the command text\<close>

lemma HasPrefix_take:
  "HasPrefix c p \<Longrightarrow> n \<le> length p \<Longrightarrow> take n c = take n p"
  by (metis HasPrefix_def min.absorb1 take_take)

lemma HasPrefix_append: "HasPrefix (p @ rest) p"
  by (simp add: HasPrefix_def)

text \<open>The three keywords differ in their second byte, so at most one case matches.\<close>

lemma send_not_read: "HasPrefix c cmd_send \<Longrightarrow> \<not> HasPrefix c cmd_read"
  using HasPrefix_take [of c cmd_send 2] HasPrefix_take [of c cmd_read 2]
  by (auto simp: cmd_send_def cmd_read_def)

lemma send_not_register: "HasPrefix c cmd_send \<Longrightarrow> \<not> HasPrefix c cmd_register"
  using HasPrefix_take [of c cmd_send 2] HasPrefix_take [of c cmd_register 2]
  by (auto simp: cmd_send_def cmd_register_def)

lemma read_not_register: "HasPrefix c cmd_read \<Longrightarrow> \<not> HasPrefix c cmd_register"
  using HasPrefix_take [of c cmd_read 2] HasPrefix_take [of c cmd_register 2]
  by (auto simp: cmd_read_def cmd_register_def)

lemma webhook_post:
  assumes "Method r = MethodPost" and "Body r = Inr req"
    and "Type (Request req) = TypeSimpleUtterance"
  shows "webhook st env r s =
     (if HasPrefix (Command (Request req)) cmd_send then webhook_send st env req s
      else if HasPrefix (Command (Request req)) cmd_read then webhook_read st env req s
      else if HasPrefix (Command (Request req)) cmd_register then webhook_register st env req s
      else webhook_default st env req s)"
  using assms by (simp add: webhook_def)

lemma webhook_is_send:
  assumes "Method r = MethodPost" and "Body r = Inr req"
    and "Type (Request req) = TypeSimpleUtterance"
    and "HasPrefix (Command (Request req)) cmd_send"
  shows "webhook st env r s = webhook_send st env req s"
  using assms by (simp add: webhook_post)

lemma webhook_is_read:
  assumes "Method r = MethodPost" and "Body r = Inr req"
    and "Type (Request req) = TypeSimpleUtterance"
    and "HasPrefix (Command (Request req)) cmd_read"
  shows "webhook st env r s = webhook_read st env req s"
  using assms send_not_read by (auto simp: webhook_post)

lemma webhook_is_register:
  assumes "Method r = MethodPost" and "Body r = Inr req"
    and "Type (Request req) = TypeSimpleUtterance"
    and "HasPrefix (Command (Request req)) cmd_register"
  shows "webhook st env r s = webhook_register st env req s"
  using assms send_not_register read_not_register by (auto simp: webhook_post)

lemma webhook_is_default:
  assumes "Method r = MethodPost" and "Body r = Inr req"
    and "Type (Request req) = TypeSimpleUtterance"
    and "\<not> HasPrefix (Command (Request req)) cmd_send"
    and "\<not> HasPrefix (Command (Request req)) cmd_read"
    and "\<not> HasPrefix (Command (Request req)) cmd_register"
  shows "webhook st env r s = webhook_default st env req s"
  using assms by (simp add: webhook_post)

lemma status_of_respond: "status_of (respond t) = Some StatusOK"
  by (simp add: respond_def)

lemma text_of_respond: "text_of (respond t) = Some t"
  by (simp add: respond_def)

subsection \<open>Facts about the requests and the store used in the examples\<close>

lemma post_simps:
  "Method (post q) = MethodPost"
  "Body (post q) = Inr q"
  by (simp_all add: post_def)

lemma utterance_simps:
  "Type (Request (utterance u n tz c)) = TypeSimpleUtterance"
  "Command (Request (utterance u n tz c)) = c"
  "New (Session (utterance u n tz c)) = n"
  "UserID (User (Session (utterance u n tz c))) = u"
  "Timezone (utterance u n tz c) = tz"
  by (simp_all add: utterance_def)

lemma plain_text_no_prefix:
  "\<not> HasPrefix ''what is new'' cmd_send"
  "\<not> HasPrefix ''what is new'' cmd_read"
  "\<not> HasPrefix ''what is new'' cmd_register"
  by (simp_all add: HasPrefix_def cmd_send_def cmd_read_def cmd_register_def)

lemma mem_store_list_bob:
  "ListMessages mem_store ''u-bob'' mem0 = (Inr [hello], mem0)"
  by (simp add: mem_store_def mem0_def hello_def)

lemma mem_store_list_down:
  "ListMessages mem_store u (mem0\<lparr>online := False\<rparr>)
     = (Inl (ErrOther ''store is down''), mem0\<lparr>online := False\<rparr>)"
  by (simp add: mem_store_def)

lemma mem_store_find_bob:
  "FindRecipient mem_store ''bob'' mem0 = (Inr ''u-bob'', mem0)"
  by (simp add: mem_store_def mem0_def)

lemma mem_store_find_down:
  "FindRecipient mem_store u (mem0\<lparr>online := False\<rparr>)
     = (Inl (ErrOther ''store is down''), mem0\<lparr>online := False\<rparr>)"
  by (simp add: mem_store_def)

lemma mem_store_register_carol:
  "RegisterUser mem_store ''u-carol'' ''carol'' mem0
     = (None, mem0\<lparr>users := users mem0 @ [(''carol'', ''u-carol'')]\<rparr>)"
  by (simp add: mem_store_def mem0_def)

lemma mem_store_register_taken:
  "RegisterUser mem_store ''u-carol'' ''carol'' (mem0\<lparr>users := [(''carol'', ''u-other'')]\<rparr>)
     = (Some ErrConflict, mem0\<lparr>users := [(''carol'', ''u-other'')]\<rparr>)"
  by (simp add: mem_store_def mem0_def)

lemma mem_store_register_down:
  "RegisterUser mem_store ''u-carol'' ''carol'' (mem0\<lparr>online := False\<rparr>)
     = (Some (ErrOther ''store is down''), mem0\<lparr>online := False\<rparr>)"
  by (simp add: mem_store_def)

lemma demo_env_simps:
  "ParseSendCommand (demo_env i) c = (''bob'', ''hello'')"
  "ParseReadCommand (demo_env i) c = i"
  "ParseRegisterCommand (demo_env i) c = ''carol''"
  "Now (demo_env i) = 45296"
  "LoadLocation (demo_env i) ''UTC'' = Inr ''UTC''"
  "LoadLocation (demo_env i) ''Mars'' = Inl (ErrOther ''unknown time zone'')"
  "Clock (demo_env i) 45296 tz = (12, 34, 56)"
  by (simp_all add: demo_env_def)

subsection \<open>The send case\<close>

text \<open>
  C5 (send path). For a request whose command has the send keyword, with \<open>username\<close> and
  \<open>text\<close> what the parser makes of the command: if \<open>FindRecipient\<close> resolves the name, the
  handler sends exactly one message on the channel, from the caller's user identifier to the
  resolved identifier with the parsed text as payload (stamped with the current time, its ID
  not set), and replies with status OK and the fixed confirmation text, written out here
  byte by byte; if \<open>FindRecipient\<close> fails, the status is "internal error", there is no
  reply text, and nothing is sent on the channel. In both cases \<open>FindRecipient\<close> is the
  only store call. The send itself waits while the channel is full; what is recorded here is
  that it happens, not when.
\<close>

theorem send_enqueues_one_message:
  assumes "Method r = MethodPost" and "Body r = Inr req"
    and "Type (Request req) = TypeSimpleUtterance"
    and "HasPrefix (Command (Request req)) cmd_send"
    and "ParseSendCommand env (Command (Request req)) = (username, text)"
  shows "(\<forall>recipientID s1. FindRecipient st username s = (Inr recipientID, s1) \<longrightarrow>
            webhook st env r s =
              (Encode \<lparr>Response = \<lparr>Text =
                 [CHR 0xD0, CHR 0xA1, CHR 0xD0, CHR 0xBE, CHR 0xD0, CHR 0xBE,
                  CHR 0xD0, CHR 0xB1, CHR 0xD1, CHR 0x89, CHR 0xD0, CHR 0xB5,
                  CHR 0xD0, CHR 0xBD, CHR 0xD0, CHR 0xB8, CHR 0xD0, CHR 0xB5,
                  CHR 0x20, CHR 0xD1, CHR 0x83, CHR 0xD1, CHR 0x81, CHR 0xD0,
                  CHR 0xBF, CHR 0xD0, CHR 0xB5, CHR 0xD1, CHR 0x88, CHR 0xD0,
                  CHR 0xBD, CHR 0xD0, CHR 0xBE, CHR 0x20, CHR 0xD0, CHR 0xBE,
                  CHR 0xD1, CHR 0x82, CHR 0xD0, CHR 0xBF, CHR 0xD1, CHR 0x80,
                  CHR 0xD0, CHR 0xB0, CHR 0xD0, CHR 0xB2, CHR 0xD0, CHR 0xBB,
                  CHR 0xD0, CHR 0xB5, CHR 0xD0, CHR 0xBD, CHR 0xD0, CHR 0xBE]\<rparr>,
                 Version = ''1.0''\<rparr>,
               [FindRecipientCall username,
                ChanSend \<lparr>ID = 0, Sender = UserID (User (Session req)), Recepient = recipientID,
                          Time = Now env, Payload = text\<rparr>],
               s1)
            \<and> webhook st env r s =
              (respond text_sent,
               [FindRecipientCall username,
                ChanSend \<lparr>ID = 0, Sender = UserID (User (Session req)), Recepient = recipientID,
                          Time = Now env, Payload = text\<rparr>],
               s1)
            \<and> status_of (fst (webhook st env r s)) = Some StatusOK
            \<and> text_of (fst (webhook st env r s)) = Some text_sent
            \<and> filter is_ChanSend (fst (snd (webhook st env r s)))
                = [ChanSend \<lparr>ID = 0, Sender = UserID (User (Session req)),
                             Recepient = recipientID, Time = Now env, Payload = text\<rparr>])
       \<and> (\<forall>err s1. FindRecipient st username s = (Inl err, s1) \<longrightarrow>
            webhook st env r s =
              (WriteHeader StatusInternalServerError, [FindRecipientCall username], s1)
            \<and> status_of (fst (webhook st env r s)) = Some StatusInternalServerError
            \<and> text_of (fst (webhook st env r s)) = None
            \<and> filter is_ChanSend (fst (snd (webhook st env r s))) = [])"
  using assms by (simp add: webhook_is_send webhook_send_def respond_def text_sent_def)

theorem send_enqueues_one_message_witness:
  "webhook mem_store (demo_env 0)
     (post (utterance ''u-alice'' False ''UTC'' (cmd_send @ '' bob hello''))) mem0
     = (Encode \<lparr>Response = \<lparr>Text =
          [CHR 0xD0, CHR 0xA1, CHR 0xD0, CHR 0xBE, CHR 0xD0, CHR 0xBE, CHR 0xD0,
           CHR 0xB1, CHR 0xD1, CHR 0x89, CHR 0xD0, CHR 0xB5, CHR 0xD0, CHR 0xBD,
           CHR 0xD0, CHR 0xB8, CHR 0xD0, CHR 0xB5, CHR 0x20, CHR 0xD1, CHR 0x83,
           CHR 0xD1, CHR 0x81, CHR 0xD0, CHR 0xBF, CHR 0xD0, CHR 0xB5, CHR 0xD1,
           CHR 0x88, CHR 0xD0, CHR 0xBD, CHR 0xD0, CHR 0xBE, CHR 0x20, CHR 0xD0,
           CHR 0xBE, CHR 0xD1, CHR 0x82, CHR 0xD0, CHR 0xBF, CHR 0xD1, CHR 0x80,
           CHR 0xD0, CHR 0xB0, CHR 0xD0, CHR 0xB2, CHR 0xD0, CHR 0xBB, CHR 0xD0,
           CHR 0xB5, CHR 0xD0, CHR 0xBD, CHR 0xD0, CHR 0xBE]\<rparr>,
          Version = ''1.0''\<rparr>,
        [FindRecipientCall ''bob'',
         ChanSend \<lparr>ID = 0, Sender = ''u-alice'', Recepient = ''u-bob'', Time = 45296,
                   Payload = ''hello''\<rparr>],
        mem0)
   \<and> webhook mem_store (demo_env 0)
       (post (utterance ''u-alice'' False ''UTC'' (cmd_send @ '' bob hello'')))
       (mem0\<lparr>online := False\<rparr>)
     = (WriteHeader StatusInternalServerError, [FindRecipientCall ''bob''],
        mem0\<lparr>online := False\<rparr>)"
proof -
  let ?req = "utterance ''u-alice'' False ''UTC'' (cmd_send @ '' bob hello'')"
  have prefix: "HasPrefix (Command (Request ?req)) cmd_send"
    by (simp add: utterance_simps HasPrefix_append)
  note send = send_enqueues_one_message [where st = mem_store, OF post_simps utterance_simps(1)
      prefix demo_env_simps(1) [of 0]]
  show ?thesis
    using send [where s = mem0] send [where s = "mem0\<lparr>online := False\<rparr>"]
    by (simp add: mem_store_find_bob mem_store_find_down utterance_simps demo_env_simps)
qed

subsection \<open>The register case\<close>

text \<open>
  C6 (register path). For a request whose command has the register keyword, with \<open>username\<close>
  what the parser makes of it and \<open>res\<close> what \<open>RegisterUser\<close> returns for the caller and
  that name: if \<open>res\<close> is the conflict error (itself, or an error that wraps it, as
  \<open>errors.Is\<close> tells), the reply is the fixed "name taken" text with status OK; if it is any
  other error, the status is "internal error" and there is no reply text; and if there is no
  error, the reply, with status OK, is the fixed confirmation phrase followed by the chosen
  username. Both texts are written out byte by byte. \<open>RegisterUser\<close> is the only store
  call.
\<close>

theorem register_error_discrimination:
  assumes "Method r = MethodPost" and "Body r = Inr req"
    and "Type (Request req) = TypeSimpleUtterance"
    and "HasPrefix (Command (Request req)) cmd_register"
    and "username = ParseRegisterCommand env (Command (Request req))"
    and "RegisterUser st (UserID (User (Session req))) username s = (res, s1)"
  shows "(res = Some ErrConflict \<longrightarrow>
            fst (webhook st env r s) =
              Encode \<lparr>Response = \<lparr>Text =
                [CHR 0xD0, CHR 0x98, CHR 0xD0, CHR 0xB7, CHR 0xD0, CHR 0xB2,
                 CHR 0xD0, CHR 0xB8, CHR 0xD0, CHR 0xBD, CHR 0xD0, CHR 0xB8,
                 CHR 0xD1, CHR 0x82, CHR 0xD0, CHR 0xB5, CHR 0x2C, CHR 0x20,
                 CHR 0xD1, CHR 0x82, CHR 0xD0, CHR 0xB0, CHR 0xD0, CHR 0xBA,
                 CHR 0xD0, CHR 0xBE, CHR 0xD0, CHR 0xB5, CHR 0x20, CHR 0xD0,
                 CHR 0xB8, CHR 0xD0, CHR 0xBC, CHR 0xD1, CHR 0x8F, CHR 0x20,
                 CHR 0xD1, CHR 0x83, CHR 0xD0, CHR 0xB6, CHR 0xD0, CHR 0xB5,
                 CHR 0x20, CHR 0xD0, CHR 0xB7, CHR 0xD0, CHR 0xB0, CHR 0xD0,
                 CHR 0xBD, CHR 0xD1, CHR 0x8F, CHR 0xD1, CHR 0x82, CHR 0xD0,
                 CHR 0xBE, CHR 0x2E, CHR 0x20, CHR 0xD0, CHR 0x9F, CHR 0xD0,
                 CHR 0xBE, CHR 0xD0, CHR 0xBF, CHR 0xD1, CHR 0x80, CHR 0xD0,
                 CHR 0xBE, CHR 0xD0, CHR 0xB1, CHR 0xD1, CHR 0x83, CHR 0xD0,
                 CHR 0xB9, CHR 0xD1, CHR 0x82, CHR 0xD0, CHR 0xB5, CHR 0x20,
                 CHR 0xD0, CHR 0xB4, CHR 0xD1, CHR 0x80, CHR 0xD1, CHR 0x83,
                 CHR 0xD0, CHR 0xB3, CHR 0xD0, CHR 0xBE, CHR 0xD0, CHR 0xB5,
                 CHR 0x2E]\<rparr>,
                Version = ''1.0''\<rparr>
            \<and> fst (webhook st env r s) = respond text_taken
            \<and> status_of (fst (webhook st env r s)) = Some StatusOK
            \<and> text_of (fst (webhook st env r s)) = Some text_taken)
       \<and> (\<forall>err. res = Some err \<and> errors_Is err ErrConflict \<longrightarrow>
            fst (webhook st env r s) =
              Encode \<lparr>Response = \<lparr>Text =
                [CHR 0xD0, CHR 0x98, CHR 0xD0, CHR 0xB7, CHR 0xD0, CHR 0xB2,
                 CHR 0xD0, CHR 0xB8, CHR 0xD0, CHR 0xBD, CHR 0xD0, CHR 0xB8,
                 CHR 0xD1, CHR 0x82, CHR 0xD0, CHR 0xB5, CHR 0x2C, CHR 0x20,
                 CHR 0xD1, CHR 0x82, CHR 0xD0, CHR 0xB0, CHR 0xD0, CHR 0xBA,
                 CHR 0xD0, CHR 0xBE, CHR 0xD0, CHR 0xB5, CHR 0x20, CHR 0xD0,
                 CHR 0xB8, CHR 0xD0, CHR 0xBC, CHR 0xD1, CHR 0x8F, CHR 0x20,
                 CHR 0xD1, CHR 0x83, CHR 0xD0, CHR 0xB6, CHR 0xD0, CHR 0xB5,
                 CHR 0x20, CHR 0xD0, CHR 0xB7, CHR 0xD0, CHR 0xB0, CHR 0xD0,
                 CHR 0xBD, CHR 0xD1, CHR 0x8F, CHR 0xD1, CHR 0x82, CHR 0xD0,
                 CHR 0xBE, CHR 0x2E, CHR 0x20, CHR 0xD0, CHR 0x9F, CHR 0xD0,
                 CHR 0xBE, CHR 0xD0, CHR 0xBF, CHR 0xD1, CHR 0x80, CHR 0xD0,
                 CHR 0xBE, CHR 0xD0, CHR 0xB1, CHR 0xD1, CHR 0x83, CHR 0xD0,
                 CHR 0xB9, CHR 0xD1, CHR 0x82, CHR 0xD0, CHR 0xB5, CHR 0x20,
                 CHR 0xD0, CHR 0xB4, CHR 0xD1, CHR 0x80, CHR 0xD1, CHR 0x83,
                 CHR 0xD0, CHR 0xB3, CHR 0xD0, CHR 0xBE, CHR 0xD0, CHR 0xB5,
                 CHR 0x2E]\<rparr>,
                Version = ''1.0''\<rparr>
            \<and> fst (webhook st env r s) = respond text_taken
            \<and> status_of (fst (webhook st env r s)) = Some StatusOK
            \<and> text_of (fst (webhook st env r s)) = Some text_taken)
       \<and> (\<forall>err. res = Some err \<and> \<not> errors_Is err ErrConflict \<longrightarrow>
            fst (webhook st env r s) = WriteHeader StatusInternalServerError
            \<and> status_of (fst (webhook st env r s)) = Some StatusInternalServerError
            \<and> text_of (fst (webhook st env r s)) = None)
       \<and> (res = None \<longrightarrow>
            fst (webhook st env r s) =
              Encode \<lparr>Response = \<lparr>Text =
                [CHR 0xD0, CHR 0x92, CHR 0xD1, CHR 0x8B, CHR 0x20, CHR 0xD1,
                 CHR 0x83, CHR 0xD1, CHR 0x81, CHR 0xD0, CHR 0xBF, CHR 0xD0,
                 CHR 0xB5, CHR 0xD1, CHR 0x88, CHR 0xD0, CHR 0xBD, CHR 0xD0,
                 CHR 0xBE, CHR 0x20, CHR 0xD0, CHR 0xB7, CHR 0xD0, CHR 0xB0,
                 CHR 0xD1, CHR 0x80, CHR 0xD0, CHR 0xB5, CHR 0xD0, CHR 0xB3,
                 CHR 0xD0, CHR 0xB8, CHR 0xD1, CHR 0x81, CHR 0xD1, CHR 0x82,
                 CHR 0xD1, CHR 0x80, CHR 0xD0, CHR 0xB8, CHR 0xD1, CHR 0x80,
                 CHR 0xD0, CHR 0xBE, CHR 0xD0, CHR 0xB2, CHR 0xD0, CHR 0xB0,
                 CHR 0xD0, CHR 0xBD, CHR 0xD1, CHR 0x8B, CHR 0x20, CHR 0xD0,
                 CHR 0xBF, CHR 0xD0, CHR 0xBE, CHR 0xD0, CHR 0xB4, CHR 0x20,
                 CHR 0xD0, CHR 0xB8, CHR 0xD0, CHR 0xBC, CHR 0xD0, CHR 0xB5,
                 CHR 0xD0, CHR 0xBD, CHR 0xD0, CHR 0xB5, CHR 0xD0, CHR 0xBC,
                 CHR 0x20]
                @ username\<rparr>,
                Version = ''1.0''\<rparr>
            \<and> fst (webhook st env r s) = respond (sprintf_registered username)
            \<and> status_of (fst (webhook st env r s)) = Some StatusOK
            \<and> text_of (fst (webhook st env r s)) = Some (sprintf_registered username))
       \<and> snd (webhook st env r s) = ([RegisterUserCall (UserID (User (Session req))) username], s1)"
proof -
  have run: "webhook st env r s =
      (case res of
         None \<Rightarrow>
           (respond (sprintf_registered username),
            [RegisterUserCall (UserID (User (Session req))) username], s1)
       | Some err \<Rightarrow>
           if errors_Is err ErrConflict
           then (respond text_taken, [RegisterUserCall (UserID (User (Session req))) username], s1)
           else (WriteHeader StatusInternalServerError,
                 [RegisterUserCall (UserID (User (Session req))) username], s1))"
    using assms
    by (simp add: webhook_is_register webhook_register_def Let_def split: option.splits)
  show ?thesis
    unfolding run
    by (cases res)
      (simp_all add: respond_def text_taken_def sprintf_registered_def fmt_registered_def)
qed

theorem register_error_discrimination_witness:
  "fst (webhook mem_store (demo_env 0)
          (post (utterance ''u-carol'' False ''UTC'' (cmd_register @ '' carol'')))
          (mem0\<lparr>users := [(''carol'', ''u-other'')]\<rparr>))
     = Encode \<lparr>Response = \<lparr>Text =
         [CHR 0xD0, CHR 0x98, CHR 0xD0, CHR 0xB7, CHR 0xD0, CHR 0xB2, CHR 0xD0,
          CHR 0xB8, CHR 0xD0, CHR 0xBD, CHR 0xD0, CHR 0xB8, CHR 0xD1, CHR 0x82,
          CHR 0xD0, CHR 0xB5, CHR 0x2C, CHR 0x20, CHR 0xD1, CHR 0x82, CHR 0xD0,
          CHR 0xB0, CHR 0xD0, CHR 0xBA, CHR 0xD0, CHR 0xBE, CHR 0xD0, CHR 0xB5,
          CHR 0x20, CHR 0xD0, CHR 0xB8, CHR 0xD0, CHR 0xBC, CHR 0xD1, CHR 0x8F,
          CHR 0x20, CHR 0xD1, CHR 0x83, CHR 0xD0, CHR 0xB6, CHR 0xD0, CHR 0xB5,
          CHR 0x20, CHR 0xD0, CHR 0xB7, CHR 0xD0, CHR 0xB0, CHR 0xD0, CHR 0xBD,
          CHR 0xD1, CHR 0x8F, CHR 0xD1, CHR 0x82, CHR 0xD0, CHR 0xBE, CHR 0x2E,
          CHR 0x20, CHR 0xD0, CHR 0x9F, CHR 0xD0, CHR 0xBE, CHR 0xD0, CHR 0xBF,
          CHR 0xD1, CHR 0x80, CHR 0xD0, CHR 0xBE, CHR 0xD0, CHR 0xB1, CHR 0xD1,
          CHR 0x83, CHR 0xD0, CHR 0xB9, CHR 0xD1, CHR 0x82, CHR 0xD0, CHR 0xB5,
          CHR 0x20, CHR 0xD0, CHR 0xB4, CHR 0xD1, CHR 0x80, CHR 0xD1, CHR 0x83,
          CHR 0xD0, CHR 0xB3, CHR 0xD0, CHR 0xBE, CHR 0xD0, CHR 0xB5, CHR 0x2E]\<rparr>,
         Version = ''1.0''\<rparr>
   \<and> fst (webhook mem_store (demo_env 0)
          (post (utterance ''u-carol'' False ''UTC'' (cmd_register @ '' carol'')))
          (mem0\<lparr>online := False\<rparr>))
     = WriteHeader StatusInternalServerError
   \<and> fst (webhook mem_store (demo_env 0)
          (post (utterance ''u-carol'' False ''UTC'' (cmd_register @ '' carol''))) mem0)
     = Encode \<lparr>Response = \<lparr>Text =
         [CHR 0xD0, CHR 0x92, CHR 0xD1, CHR 0x8B, CHR 0x20, CHR 0xD1, CHR 0x83,
          CHR 0xD1, CHR 0x81, CHR 0xD0, CHR 0xBF, CHR 0xD0, CHR 0xB5, CHR 0xD1,
          CHR 0x88, CHR 0xD0, CHR 0xBD, CHR 0xD0, CHR 0xBE, CHR 0x20, CHR 0xD0,
          CHR 0xB7, CHR 0xD0, CHR 0xB0, CHR 0xD1, CHR 0x80, CHR 0xD0, CHR 0xB5,
          CHR 0xD0, CHR 0xB3, CHR 0xD0, CHR 0xB8, CHR 0xD1, CHR 0x81, CHR 0xD1,
          CHR 0x82, CHR 0xD1, CHR 0x80, CHR 0xD0, CHR 0xB8, CHR 0xD1, CHR 0x80,
          CHR 0xD0, CHR 0xBE, CHR 0xD0, CHR 0xB2, CHR 0xD0, CHR 0xB0, CHR 0xD0,
          CHR 0xBD, CHR 0xD1, CHR 0x8B, CHR 0x20, CHR 0xD0, CHR 0xBF, CHR 0xD0,
          CHR 0xBE, CHR 0xD0, CHR 0xB4, CHR 0x20, CHR 0xD0, CHR 0xB8, CHR 0xD0,
          CHR 0xBC, CHR 0xD0, CHR 0xB5, CHR 0xD0, CHR 0xBD, CHR 0xD0, CHR 0xB5,
          CHR 0xD0, CHR 0xBC, CHR 0x20]
         @ ''carol''\<rparr>,
         Version = ''1.0''\<rparr>"
proof -
  let ?req = "utterance ''u-carol'' False ''UTC'' (cmd_register @ '' carol'')"
  have prefix: "HasPrefix (Command (Request ?req)) cmd_register"
    by (simp add: utterance_simps HasPrefix_append)
  have name: "''carol'' = ParseRegisterCommand (demo_env 0) (Command (Request ?req))"
    by (simp add: demo_env_simps)
  have taken: "RegisterUser mem_store (UserID (User (Session ?req))) ''carol''
      (mem0\<lparr>users := [(''carol'', ''u-other'')]\<rparr>)
      = (Some ErrConflict, mem0\<lparr>users := [(''carol'', ''u-other'')]\<rparr>)"
    by (simp add: utterance_simps mem_store_register_taken)
  have down: "RegisterUser mem_store (UserID (User (Session ?req))) ''carol''
      (mem0\<lparr>online := False\<rparr>)
      = (Some (ErrOther ''store is down''), mem0\<lparr>online := False\<rparr>)"
    by (simp add: utterance_simps mem_store_register_down)
  have free: "RegisterUser mem_store (UserID (User (Session ?req))) ''carol'' mem0
      = (None, mem0\<lparr>users := users mem0 @ [(''carol'', ''u-carol'')]\<rparr>)"
    by (simp add: utterance_simps mem_store_register_carol)
  note register = register_error_discrimination [where st = mem_store,
      OF post_simps utterance_simps(1) prefix name]
  show ?thesis
    using register [OF taken] register [OF down] register [OF free]
    by simp
qed

subsection \<open>The read case\<close>

text \<open>
  What the read case does once the listing has succeeded with \<open>messages\<close>, by the parsed
  index \<open>i\<close>: beyond the length the fixed text; within range the message is fetched and
  read out; at the length itself, or below zero, \<open>messages[i]\<close> panics.
\<close>

lemma webhook_read_beyond:
  assumes "ListMessages st (UserID (User (Session req))) s = (Inr messages, s1)"
    and "int (length messages) < ParseReadCommand env (Command (Request req))"
  shows "webhook_read st env req s =
           (respond text_no_such, [ListMessagesCall (UserID (User (Session req)))], s1)"
  using assms by (simp add: webhook_read_def Let_def)

lemma webhook_read_within:
  assumes "ListMessages st (UserID (User (Session req))) s = (Inr messages, s1)"
    and "ParseReadCommand env (Command (Request req)) = int k" and "k < length messages"
    and "GetMessage st (ID (messages ! k)) s1 = (Inr (Some m), s2)"
  shows "webhook_read st env req s =
           (respond (sprintf_message env m),
            [ListMessagesCall (UserID (User (Session req))), GetMessageCall (ID (messages ! k))],
            s2)"
  using assms by (simp add: webhook_read_def slice_index_def Let_def)

lemma webhook_read_at_length:
  assumes "ListMessages st (UserID (User (Session req))) s = (Inr messages, s1)"
    and "ParseReadCommand env (Command (Request req)) = int (length messages)"
  shows "webhook_read st env req s =
           (Panic, [ListMessagesCall (UserID (User (Session req)))], s1)"
  using assms by (simp add: webhook_read_def slice_index_def Let_def)

lemma webhook_read_negative:
  assumes "ListMessages st (UserID (User (Session req))) s = (Inr messages, s1)"
    and "ParseReadCommand env (Command (Request req)) < 0"
  shows "webhook_read st env req s =
           (Panic, [ListMessagesCall (UserID (User (Session req)))], s1)"
  using assms by (simp add: webhook_read_def slice_index_def Let_def)

text \<open>
  C1 (read-path boundary), where the code departs from it. The guard of the read case is
  \<open>len(messages) < messageIndex\<close>, so an index equal to the number of listed messages is
  not turned away and \<open>messages[messageIndex]\<close> is evaluated out of range. With one message
  listed for the caller and index 1, and with no message listed and index 0, the call ends in
  a panic after the listing, with no reply.
\<close>

theorem read_at_list_length_panics:
  "webhook mem_store (demo_env 1)
     (post (utterance ''u-bob'' False ''UTC'' (cmd_read @ '' 1''))) mem0
     = (Panic, [ListMessagesCall ''u-bob''], mem0)
   \<and> webhook mem_store (demo_env 0)
       (post (utterance ''u-alice'' False ''UTC'' (cmd_read @ '' 0''))) mem0
     = (Panic, [ListMessagesCall ''u-alice''], mem0)"
proof -
  have read: "webhook mem_store (demo_env i) (post (utterance u False ''UTC'' (cmd_read @ c))) mem0
      = webhook_read mem_store (demo_env i) (utterance u False ''UTC'' (cmd_read @ c)) mem0"
    for i u c
    by (rule webhook_is_read) (simp_all add: post_simps utterance_simps HasPrefix_append)
  have bob: "ListMessages mem_store (UserID (User (Session (utterance ''u-bob'' False ''UTC'' c)))) mem0
      = (Inr [hello], mem0)" for c
    by (simp add: utterance_simps mem_store_list_bob)
  have alice: "ListMessages mem_store
      (UserID (User (Session (utterance ''u-alice'' False ''UTC'' c)))) mem0 = (Inr [], mem0)" for c
    by (simp add: utterance_simps mem_store_def mem0_def hello_def)
  show ?thesis
    using webhook_read_at_length [OF bob, of "demo_env 1" "cmd_read @ '' 1''"]
      webhook_read_at_length [OF alice, of "demo_env 0" "cmd_read @ '' 0''"]
    by (simp add: read utterance_simps demo_env_simps)
qed

subsection \<open>The default case\<close>

text \<open>
  C2, as the claim states it, fails: on the default path the handler lists the caller's
  messages before it looks at the time zone. Here the first-turn request carries the unknown
  zone \<open>Mars\<close>; the status is "bad request", and the call has made a store call.
\<close>

theorem invalid_timezone_lists_first_counterexample:
  "webhook mem_store (demo_env 0) (post (utterance ''u-bob'' True ''Mars'' ''what is new'')) mem0
     = (WriteHeader StatusBadRequest, [ListMessagesCall ''u-bob''], mem0)
   \<and> \<not> (filter is_store_call
          (fst (snd (webhook mem_store (demo_env 0)
                       (post (utterance ''u-bob'' True ''Mars'' ''what is new'')) mem0))) = [])"
  by code_simp

text \<open>
  C2, amended. For a first-turn request on the default path whose time zone does not load,
  the handler first calls \<open>ListMessages\<close> for the caller, its only store call: if the
  listing succeeds the status is "bad request", and if it fails the status is "internal
  error".
\<close>

theorem invalid_timezone_after_listing:
  assumes "Method r = MethodPost" and "Body r = Inr req"
    and "Type (Request req) = TypeSimpleUtterance"
    and "\<not> HasPrefix (Command (Request req)) cmd_send"
    and "\<not> HasPrefix (Command (Request req)) cmd_read"
    and "\<not> HasPrefix (Command (Request req)) cmd_register"
    and "New (Session req)"
    and "LoadLocation env (Timezone req) = Inl tzerr"
  shows "(\<forall>messages s1. ListMessages st (UserID (User (Session req))) s = (Inr messages, s1) \<longrightarrow>
            webhook st env r s =
              (WriteHeader StatusBadRequest, [ListMessagesCall (UserID (User (Session req)))], s1))
       \<and> (\<forall>err s1. ListMessages st (UserID (User (Session req))) s = (Inl err, s1) \<longrightarrow>
            webhook st env r s =
              (WriteHeader StatusInternalServerError,
               [ListMessagesCall (UserID (User (Session req)))], s1))"
  using assms by (simp add: webhook_is_default webhook_default_def Let_def)

theorem invalid_timezone_after_listing_witness:
  "webhook mem_store (demo_env 0) (post (utterance ''u-bob'' True ''Mars'' ''what is new'')) mem0
     = (WriteHeader StatusBadRequest, [ListMessagesCall ''u-bob''], mem0)
   \<and> webhook mem_store (demo_env 0) (post (utterance ''u-bob'' True ''Mars'' ''what is new''))
       (mem0\<lparr>online := False\<rparr>)
     = (WriteHeader StatusInternalServerError, [ListMessagesCall ''u-bob''],
        mem0\<lparr>online := False\<rparr>)"
proof -
  let ?req = "utterance ''u-bob'' True ''Mars'' ''what is new''"
  have plain: "\<not> HasPrefix (Command (Request ?req)) cmd_send"
    "\<not> HasPrefix (Command (Request ?req)) cmd_read"
    "\<not> HasPrefix (Command (Request ?req)) cmd_register"
    by (simp_all add: utterance_simps plain_text_no_prefix)
  have new: "New (Session ?req)"
    by (simp add: utterance_simps)
  have zone: "LoadLocation (demo_env 0) (Timezone ?req) = Inl (ErrOther ''unknown time zone'')"
    by (simp add: utterance_simps demo_env_simps)
  note invalid = invalid_timezone_after_listing [where st = mem_store,
      OF post_simps utterance_simps(1) plain new zone]
  show ?thesis
    using invalid [where s = mem0] invalid [where s = "mem0\<lparr>online := False\<rparr>"]
    by (simp add: utterance_simps mem_store_list_bob mem_store_list_down)
qed

text \<open>
  C7 (first-turn greeting). For a first-turn request on the default path whose time zone
  loads, with \<open>hour\<close> and \<open>minute\<close> the clock reading of the current time in that zone: when
  the listing succeeds, the reply has status OK and its text is the greeting phrase with that
  hour and minute in decimal, followed by the count text, which is the fixed "no new
  messages" text for an empty list and the count phrase with the number of messages
  otherwise; the same request without the first-turn flag replies with that count text alone.
  In every case the result is the result of the same request without the first-turn flag,
  with the greeting put before the reply text when there is one. All fixed texts are written
  out byte by byte.
\<close>

theorem first_turn_greeting:
  assumes "Method r = MethodPost" and "Body r = Inr req"
    and "Type (Request req) = TypeSimpleUtterance"
    and "\<not> HasPrefix (Command (Request req)) cmd_send"
    and "\<not> HasPrefix (Command (Request req)) cmd_read"
    and "\<not> HasPrefix (Command (Request req)) cmd_register"
    and "New (Session req)"
    and "LoadLocation env (Timezone req) = Inr tz"
    and "Clock env (Now env) tz = (hour, minute, sec)"
  shows "(\<forall>messages s1. ListMessages st (UserID (User (Session req))) s = (Inr messages, s1) \<longrightarrow>
            webhook st env r s =
              (Encode \<lparr>Response = \<lparr>Text =
                 [CHR 0xD0, CHR 0xA2, CHR 0xD0, CHR 0xBE, CHR 0xD1, CHR 0x87,
                  CHR 0xD0, CHR 0xBD, CHR 0xD0, CHR 0xBE, CHR 0xD0, CHR 0xB5,
                  CHR 0x20, CHR 0xD0, CHR 0xB2, CHR 0xD1, CHR 0x80, CHR 0xD0,
                  CHR 0xB5, CHR 0xD0, CHR 0xBC, CHR 0xD1, CHR 0x8F, CHR 0x20]
                 @ fmt_d hour
                 @ [CHR 0x20, CHR 0xD1, CHR 0x87, CHR 0xD0, CHR 0xB0, CHR 0xD1,
                    CHR 0x81, CHR 0xD0, CHR 0xBE, CHR 0xD0, CHR 0xB2, CHR 0x2C,
                    CHR 0x20]
                 @ fmt_d minute
                 @ [CHR 0x20, CHR 0xD0, CHR 0xBC, CHR 0xD0, CHR 0xB8, CHR 0xD0,
                    CHR 0xBD, CHR 0xD1, CHR 0x83, CHR 0xD1, CHR 0x82, CHR 0x2E,
                    CHR 0x20]
                 @ (if length messages > 0
                    then [CHR 0xD0, CHR 0x94, CHR 0xD0, CHR 0xBB, CHR 0xD1,
                          CHR 0x8F, CHR 0x20, CHR 0xD0, CHR 0xB2, CHR 0xD0,
                          CHR 0xB0, CHR 0xD1, CHR 0x81, CHR 0x20]
                         @ fmt_d (int (length messages))
                         @ [CHR 0x20, CHR 0xD0, CHR 0xBD, CHR 0xD0, CHR 0xBE,
                            CHR 0xD0, CHR 0xB2, CHR 0xD1, CHR 0x8B, CHR 0xD1,
                            CHR 0x85, CHR 0x20, CHR 0xD1, CHR 0x81, CHR 0xD0,
                            CHR 0xBE, CHR 0xD0, CHR 0xBE, CHR 0xD0, CHR 0xB1,
                            CHR 0xD1, CHR 0x89, CHR 0xD0, CHR 0xB5, CHR 0xD0,
                            CHR 0xBD, CHR 0xD0, CHR 0xB8, CHR 0xD0, CHR 0xB9,
                            CHR 0x2E]
                    else [CHR 0xD0, CHR 0x94, CHR 0xD0, CHR 0xBB, CHR 0xD1,
                          CHR 0x8F, CHR 0x20, CHR 0xD0, CHR 0xB2, CHR 0xD0,
                          CHR 0xB0, CHR 0xD1, CHR 0x81, CHR 0x20, CHR 0xD0,
                          CHR 0xBD, CHR 0xD0, CHR 0xB5, CHR 0xD1, CHR 0x82,
                          CHR 0x20, CHR 0xD0, CHR 0xBD, CHR 0xD0, CHR 0xBE,
                          CHR 0xD0, CHR 0xB2, CHR 0xD1, CHR 0x8B, CHR 0xD1,
                          CHR 0x85, CHR 0x20, CHR 0xD1, CHR 0x81, CHR 0xD0,
                          CHR 0xBE, CHR 0xD0, CHR 0xBE, CHR 0xD0, CHR 0xB1,
                          CHR 0xD1, CHR 0x89, CHR 0xD0, CHR 0xB5, CHR 0xD0,
                          CHR 0xBD, CHR 0xD0, CHR 0xB8, CHR 0xD0, CHR 0xB9,
                          CHR 0x2E])\<rparr>,
                 Version = ''1.0''\<rparr>,
               [ListMessagesCall (UserID (User (Session req)))], s1)
            \<and> webhook st env (r\<lparr>Body := Inr (req\<lparr>Session := (Session req)\<lparr>New := False\<rparr>\<rparr>)\<rparr>) s =
              (Encode \<lparr>Response = \<lparr>Text =
                 (if length messages > 0
                  then [CHR 0xD0, CHR 0x94, CHR 0xD0, CHR 0xBB, CHR 0xD1, CHR 0x8F,
                        CHR 0x20, CHR 0xD0, CHR 0xB2, CHR 0xD0, CHR 0xB0, CHR 0xD1,
                        CHR 0x81, CHR 0x20]
                       @ fmt_d (int (length messages))
                       @ [CHR 0x20, CHR 0xD0, CHR 0xBD, CHR 0xD0, CHR 0xBE,
                          CHR 0xD0, CHR 0xB2, CHR 0xD1, CHR 0x8B, CHR 0xD1,
                          CHR 0x85, CHR 0x20, CHR 0xD1, CHR 0x81, CHR 0xD0,
                          CHR 0xBE, CHR 0xD0, CHR 0xBE, CHR 0xD0, CHR 0xB1,
                          CHR 0xD1, CHR 0x89, CHR 0xD0, CHR 0xB5, CHR 0xD0,
                          CHR 0xBD, CHR 0xD0, CHR 0xB8, CHR 0xD0, CHR 0xB9,
                          CHR 0x2E]
                  else [CHR 0xD0, CHR 0x94, CHR 0xD0, CHR 0xBB, CHR 0xD1, CHR 0x8F,
                        CHR 0x20, CHR 0xD0, CHR 0xB2, CHR 0xD0, CHR 0xB0, CHR 0xD1,
                        CHR 0x81, CHR 0x20, CHR 0xD0, CHR 0xBD, CHR 0xD0, CHR 0xB5,
                        CHR 0xD1, CHR 0x82, CHR 0x20, CHR 0xD0, CHR 0xBD, CHR 0xD0,
                        CHR 0xBE, CHR 0xD0, CHR 0xB2, CHR 0xD1, CHR 0x8B, CHR 0xD1,
                        CHR 0x85, CHR 0x20, CHR 0xD1, CHR 0x81, CHR 0xD0, CHR 0xBE,
                        CHR 0xD0, CHR 0xBE, CHR 0xD0, CHR 0xB1, CHR 0xD1, CHR 0x89,
                        CHR 0xD0, CHR 0xB5, CHR 0xD0, CHR 0xBD, CHR 0xD0, CHR 0xB8,
                        CHR 0xD0, CHR 0xB9, CHR 0x2E])\<rparr>,
                 Version = ''1.0''\<rparr>,
               [ListMessagesCall (UserID (User (Session req)))], s1)
            \<and> webhook st env r s =
              (respond (sprintf_greeting hour minute
                 (if length messages > 0 then sprintf_count (int (length messages))
                  else text_no_new)),
               [ListMessagesCall (UserID (User (Session req)))], s1)
            \<and> status_of (fst (webhook st env r s)) = Some StatusOK)
       \<and> webhook st env r s =
           (case webhook st env (r\<lparr>Body := Inr (req\<lparr>Session := (Session req)\<lparr>New := False\<rparr>\<rparr>)\<rparr>) s of
              (Encode resp, evs, s1) \<Rightarrow>
                (Encode \<lparr>Response = \<lparr>Text =
                   [CHR 0xD0, CHR 0xA2, CHR 0xD0, CHR 0xBE, CHR 0xD1, CHR 0x87,
                    CHR 0xD0, CHR 0xBD, CHR 0xD0, CHR 0xBE, CHR 0xD0, CHR 0xB5,
                    CHR 0x20, CHR 0xD0, CHR 0xB2, CHR 0xD1, CHR 0x80, CHR 0xD0,
                    CHR 0xB5, CHR 0xD0, CHR 0xBC, CHR 0xD1, CHR 0x8F, CHR 0x20]
                   @ fmt_d hour
                   @ [CHR 0x20, CHR 0xD1, CHR 0x87, CHR 0xD0, CHR 0xB0, CHR 0xD1,
                      CHR 0x81, CHR 0xD0, CHR 0xBE, CHR 0xD0, CHR 0xB2, CHR 0x2C,
                      CHR 0x20]
                   @ fmt_d minute
                   @ [CHR 0x20, CHR 0xD0, CHR 0xBC, CHR 0xD0, CHR 0xB8, CHR 0xD0,
                      CHR 0xBD, CHR 0xD1, CHR 0x83, CHR 0xD1, CHR 0x82, CHR 0x2E,
                      CHR 0x20]
                   @ Text (Response resp)\<rparr>,
                   Version = ''1.0''\<rparr>,
                 evs, s1)
            | (WriteHeader c, evs, s1) \<Rightarrow> (WriteHeader c, evs, s1)
            | (Panic, evs, s1) \<Rightarrow> (Panic, evs, s1))"
proof -
  let ?req0 = "req\<lparr>Session := (Session req)\<lparr>New := False\<rparr>\<rparr>"
  let ?r0 = "r\<lparr>Body := Inr ?req0\<rparr>"
  have first: "webhook st env r s = webhook_default st env req s"
    using assms by (simp add: webhook_is_default)
  have "Method ?r0 = MethodPost" "Body ?r0 = Inr ?req0"
    "Type (Request ?req0) = TypeSimpleUtterance" "Command (Request ?req0) = Command (Request req)"
    using assms by simp_all
  then have later: "webhook st env ?r0 s = webhook_default st env ?req0 s"
    using assms by (simp add: webhook_is_default)
  show ?thesis
    unfolding first later using assms(7-9)
    by (simp add: webhook_default_def Let_def count_text_def respond_def sprintf_greeting_def
        sprintf_count_def text_no_new_def fmt_greeting_1_def fmt_greeting_2_def fmt_greeting_3_def
        fmt_count_1_def fmt_count_2_def
        split: prod.splits sum.splits)
qed

theorem first_turn_greeting_witness:
  "webhook mem_store (demo_env 0) (post (utterance ''u-bob'' True ''UTC'' ''what is new'')) mem0
     = (Encode \<lparr>Response = \<lparr>Text =
          [CHR 0xD0, CHR 0xA2, CHR 0xD0, CHR 0xBE, CHR 0xD1, CHR 0x87, CHR 0xD0,
           CHR 0xBD, CHR 0xD0, CHR 0xBE, CHR 0xD0, CHR 0xB5, CHR 0x20, CHR 0xD0,
           CHR 0xB2, CHR 0xD1, CHR 0x80, CHR 0xD0, CHR 0xB5, CHR 0xD0, CHR 0xBC,
           CHR 0xD1, CHR 0x8F, CHR 0x20]
          @ ''12''
          @ [CHR 0x20, CHR 0xD1, CHR 0x87, CHR 0xD0, CHR 0xB0, CHR 0xD1, CHR 0x81,
             CHR 0xD0, CHR 0xBE, CHR 0xD0, CHR 0xB2, CHR 0x2C, CHR 0x20]
          @ ''34''
          @ [CHR 0x20, CHR 0xD0, CHR 0xBC, CHR 0xD0, CHR 0xB8, CHR 0xD0, CHR 0xBD,
             CHR 0xD1, CHR 0x83, CHR 0xD1, CHR 0x82, CHR 0x2E, CHR 0x20]
          @ [CHR 0xD0, CHR 0x94, CHR 0xD0, CHR 0xBB, CHR 0xD1, CHR 0x8F, CHR 0x20,
             CHR 0xD0, CHR 0xB2, CHR 0xD0, CHR 0xB0, CHR 0xD1, CHR 0x81, CHR 0x20]
          @ ''1''
          @ [CHR 0x20, CHR 0xD0, CHR 0xBD, CHR 0xD0, CHR 0xBE, CHR 0xD0, CHR 0xB2,
             CHR 0xD1, CHR 0x8B, CHR 0xD1, CHR 0x85, CHR 0x20, CHR 0xD1, CHR 0x81,
             CHR 0xD0, CHR 0xBE, CHR 0xD0, CHR 0xBE, CHR 0xD0, CHR 0xB1, CHR 0xD1,
             CHR 0x89, CHR 0xD0, CHR 0xB5, CHR 0xD0, CHR 0xBD, CHR 0xD0, CHR 0xB8,
             CHR 0xD0, CHR 0xB9, CHR 0x2E]\<rparr>,
          Version = ''1.0''\<rparr>,
        [ListMessagesCall ''u-bob''], mem0)
   \<and> webhook mem_store (demo_env 0) (post (utterance ''u-alice'' True ''UTC'' ''what is new'')) mem0
     = (Encode \<lparr>Response = \<lparr>Text =
          [CHR 0xD0, CHR 0xA2, CHR 0xD0, CHR 0xBE, CHR 0xD1, CHR 0x87, CHR 0xD0,
           CHR 0xBD, CHR 0xD0, CHR 0xBE, CHR 0xD0, CHR 0xB5, CHR 0x20, CHR 0xD0,
           CHR 0xB2, CHR 0xD1, CHR 0x80, CHR 0xD0, CHR 0xB5, CHR 0xD0, CHR 0xBC,
           CHR 0xD1, CHR 0x8F, CHR 0x20]
          @ ''12''
          @ [CHR 0x20, CHR 0xD1, CHR 0x87, CHR 0xD0, CHR 0xB0, CHR 0xD1, CHR 0x81,
             CHR 0xD0, CHR 0xBE, CHR 0xD0, CHR 0xB2, CHR 0x2C, CHR 0x20]
          @ ''34''
          @ [CHR 0x20, CHR 0xD0, CHR 0xBC, CHR 0xD0, CHR 0xB8, CHR 0xD0, CHR 0xBD,
             CHR 0xD1, CHR 0x83, CHR 0xD1, CHR 0x82, CHR 0x2E, CHR 0x20]
          @ [CHR 0xD0, CHR 0x94, CHR 0xD0, CHR 0xBB, CHR 0xD1, CHR 0x8F, CHR 0x20,
             CHR 0xD0, CHR 0xB2, CHR 0xD0, CHR 0xB0, CHR 0xD1, CHR 0x81, CHR 0x20,
             CHR 0xD0, CHR 0xBD, CHR 0xD0, CHR 0xB5, CHR 0xD1, CHR 0x82, CHR 0x20,
             CHR 0xD0, CHR 0xBD, CHR 0xD0, CHR 0xBE, CHR 0xD0, CHR 0xB2, CHR 0xD1,
             CHR 0x8B, CHR 0xD1, CHR 0x85, CHR 0x20, CHR 0xD1, CHR 0x81, CHR 0xD0,
             CHR 0xBE, CHR 0xD0, CHR 0xBE, CHR 0xD0, CHR 0xB1, CHR 0xD1, CHR 0x89,
             CHR 0xD0, CHR 0xB5, CHR 0xD0, CHR 0xBD, CHR 0xD0, CHR 0xB8, CHR 0xD0,
             CHR 0xB9, CHR 0x2E]\<rparr>,
          Version = ''1.0''\<rparr>,
        [ListMessagesCall ''u-alice''], mem0)"
proof -
  have plain: "\<not> HasPrefix (Command (Request (utterance u True ''UTC'' ''what is new''))) cmd_send"
    "\<not> HasPrefix (Command (Request (utterance u True ''UTC'' ''what is new''))) cmd_read"
    "\<not> HasPrefix (Command (Request (utterance u True ''UTC'' ''what is new''))) cmd_register" for u
    by (simp_all add: utterance_simps plain_text_no_prefix)
  have new: "New (Session (utterance u True ''UTC'' ''what is new''))" for u
    by (simp add: utterance_simps)
  have zone: "LoadLocation (demo_env 0) (Timezone (utterance u True ''UTC'' ''what is new''))
      = Inr ''UTC''" for u
    by (simp add: utterance_simps demo_env_simps)
  have clock: "Clock (demo_env 0) (Now (demo_env 0)) ''UTC'' = (12, 34, 56)"
    by (simp add: demo_env_simps)
  have alice: "ListMessages mem_store ''u-alice'' mem0 = (Inr [], mem0)"
    by (simp add: mem_store_def mem0_def hello_def)
  have decimal: "fmt_d 12 = ''12''" "fmt_d 34 = ''34''" "fmt_d 1 = ''1''"
    by code_simp+
  note greeting = first_turn_greeting [where st = mem_store and s = mem0,
      OF post_simps utterance_simps(1) plain new zone clock]
  show ?thesis
    using greeting [of "''u-bob''"] greeting [of "''u-alice''"]
    by (simp add: mem_store_list_bob alice utterance_simps decimal)
qed

subsection \<open>The first-turn flag and the time zone are read by the default case only\<close>

lemma take_greeting: "take 4 (sprintf_greeting hour minute text) = greeting_start"
  by (simp add: sprintf_greeting_def fmt_greeting_1_def greeting_start_def)

lemma not_greeting: "take 4 t \<noteq> greeting_start \<Longrightarrow> t \<noteq> sprintf_greeting hour minute text"
  using take_greeting by metis

lemma text_sent_not_greeting: "text_sent \<noteq> sprintf_greeting hour minute text"
  by (rule not_greeting) (simp add: text_sent_def greeting_start_def)

lemma text_no_such_not_greeting: "text_no_such \<noteq> sprintf_greeting hour minute text"
  by (rule not_greeting) (simp add: text_no_such_def greeting_start_def)

lemma text_taken_not_greeting: "text_taken \<noteq> sprintf_greeting hour minute text"
  by (rule not_greeting) (simp add: text_taken_def greeting_start_def)

lemma message_not_greeting: "sprintf_message env m \<noteq> sprintf_greeting hour minute text"
  by (rule not_greeting) (simp add: sprintf_message_def fmt_message_1_def greeting_start_def)

lemma registered_not_greeting: "sprintf_registered u \<noteq> sprintf_greeting hour minute text"
  by (rule not_greeting) (simp add: sprintf_registered_def fmt_registered_def greeting_start_def)

lemmas not_greeting_simps = text_sent_not_greeting text_no_such_not_greeting
  text_taken_not_greeting message_not_greeting registered_not_greeting

lemma webhook_send_plain:
  "webhook_send st (env\<lparr>LoadLocation := load, Clock := clock\<rparr>)
     (req\<lparr>Session := (Session req)\<lparr>New := new\<rparr>, Timezone := tz\<rparr>) s = webhook_send st env req s"
  by (simp add: webhook_send_def split: prod.splits sum.splits)

lemma webhook_read_plain:
  "webhook_read st (env\<lparr>LoadLocation := load, Clock := clock\<rparr>)
     (req\<lparr>Session := (Session req)\<lparr>New := new\<rparr>, Timezone := tz\<rparr>) s = webhook_read st env req s"
  by (simp add: webhook_read_def sprintf_message_def Let_def
      split: prod.splits sum.splits option.splits)

lemma webhook_register_plain:
  "webhook_register st (env\<lparr>LoadLocation := load, Clock := clock\<rparr>)
     (req\<lparr>Session := (Session req)\<lparr>New := new\<rparr>, Timezone := tz\<rparr>) s
     = webhook_register st env req s"
  by (simp add: webhook_register_def Let_def split: prod.splits option.splits)

lemma webhook_send_outcome:
  "status_of (fst (webhook_send st env req s)) \<noteq> Some StatusBadRequest
   \<and> text_of (fst (webhook_send st env req s)) \<noteq> Some (sprintf_greeting hour minute text)"
  by (simp add: webhook_send_def status_of_respond text_of_respond not_greeting_simps
      split: prod.splits sum.splits)

lemma webhook_read_outcome:
  "status_of (fst (webhook_read st env req s)) \<noteq> Some StatusBadRequest
   \<and> text_of (fst (webhook_read st env req s)) \<noteq> Some (sprintf_greeting hour minute text)"
  by (simp add: webhook_read_def Let_def status_of_respond text_of_respond not_greeting_simps
      split: prod.splits sum.splits option.splits)

lemma webhook_register_outcome:
  "status_of (fst (webhook_register st env req s)) \<noteq> Some StatusBadRequest
   \<and> text_of (fst (webhook_register st env req s)) \<noteq> Some (sprintf_greeting hour minute text)"
  by (simp add: webhook_register_def Let_def status_of_respond text_of_respond not_greeting_simps
      split: prod.splits sum.splits option.splits)

text \<open>
  C9 (commands ignore the first-turn flag and the time zone). For a request whose command
  has the send, read or register keyword, the whole result of the handler (outcome, events
  and store) stays the same when the first-turn flag, the time zone string, the time zone
  database and the clock reading are replaced by any others; the status is never "bad
  request"; and the reply text, if there is one, is no greeting, whatever hour, minute and
  following text one takes.
\<close>

theorem commands_ignore_first_turn_and_timezone:
  assumes "Method r = MethodPost" and "Body r = Inr req"
    and "Type (Request req) = TypeSimpleUtterance"
    and "HasPrefix (Command (Request req)) cmd_send
         \<or> HasPrefix (Command (Request req)) cmd_read
         \<or> HasPrefix (Command (Request req)) cmd_register"
  shows "webhook st (env\<lparr>LoadLocation := load, Clock := clock\<rparr>)
           (r\<lparr>Body := Inr (req\<lparr>Session := (Session req)\<lparr>New := new\<rparr>, Timezone := tz\<rparr>)\<rparr>) s
         = webhook st env r s
       \<and> status_of (fst (webhook st env r s)) \<noteq> Some StatusBadRequest
       \<and> text_of (fst (webhook st env r s)) \<noteq> Some (sprintf_greeting hour minute text)"
proof -
  let ?req' = "req\<lparr>Session := (Session req)\<lparr>New := new\<rparr>, Timezone := tz\<rparr>"
  let ?r' = "r\<lparr>Body := Inr ?req'\<rparr>"
  let ?env' = "env\<lparr>LoadLocation := load, Clock := clock\<rparr>"
  have r': "Method ?r' = MethodPost" "Body ?r' = Inr ?req'"
    "Type (Request ?req') = TypeSimpleUtterance" "Command (Request ?req') = Command (Request req)"
    using assms by simp_all
  from assms(4) consider
      (send) "HasPrefix (Command (Request req)) cmd_send"
    | (read) "HasPrefix (Command (Request req)) cmd_read"
    | (register) "HasPrefix (Command (Request req)) cmd_register"
    by blast
  then show ?thesis
  proof cases
    case send
    then have "webhook st env r s = webhook_send st env req s"
      and "webhook st ?env' ?r' s = webhook_send st ?env' ?req' s"
      using assms r' by (simp_all add: webhook_is_send)
    then show ?thesis
      using webhook_send_outcome [of st env req s] by (simp add: webhook_send_plain)
  next
    case read
    then have "webhook st env r s = webhook_read st env req s"
      and "webhook st ?env' ?r' s = webhook_read st ?env' ?req' s"
      using assms r' by (simp_all add: webhook_is_read)
    then show ?thesis
      using webhook_read_outcome [of st env req s] by (simp add: webhook_read_plain)
  next
    case register
    then have "webhook st env r s = webhook_register st env req s"
      and "webhook st ?env' ?r' s = webhook_register st ?env' ?req' s"
      using assms r' by (simp_all add: webhook_is_register)
    then show ?thesis
      using webhook_register_outcome [of st env req s] by (simp add: webhook_register_plain)
  qed
qed

theorem commands_ignore_first_turn_and_timezone_witness:
  "webhook mem_store (demo_env 0)
     (post (utterance ''u-alice'' True ''Mars'' (cmd_send @ '' bob hello''))) mem0
     = webhook mem_store (demo_env 0)
         (post (utterance ''u-alice'' False ''UTC'' (cmd_send @ '' bob hello''))) mem0
   \<and> status_of (fst (webhook mem_store (demo_env 0)
         (post (utterance ''u-alice'' True ''Mars'' (cmd_send @ '' bob hello''))) mem0))
     = Some StatusOK"
proof -
  let ?req = "utterance ''u-alice'' False ''UTC'' (cmd_send @ '' bob hello'')"
  have prefix: "HasPrefix (Command (Request ?req)) cmd_send
      \<or> HasPrefix (Command (Request ?req)) cmd_read
      \<or> HasPrefix (Command (Request ?req)) cmd_register"
    by (simp add: utterance_simps HasPrefix_append)
  have same: "webhook mem_store (demo_env 0)
      (post (utterance ''u-alice'' True ''Mars'' (cmd_send @ '' bob hello''))) mem0
      = webhook mem_store (demo_env 0) (post ?req) mem0"
    using commands_ignore_first_turn_and_timezone [where st = mem_store and s = mem0
        and env = "demo_env 0" and load = "LoadLocation (demo_env 0)"
        and clock = "Clock (demo_env 0)" and new = True and tz = "''Mars''",
        OF post_simps utterance_simps(1) prefix]
    by (simp add: post_def utterance_def)
  have "webhook mem_store (demo_env 0) (post ?req) mem0 = webhook_send mem_store (demo_env 0) ?req mem0"
    by (rule webhook_is_send) (simp_all add: post_simps utterance_simps HasPrefix_append)
  then have "status_of (fst (webhook mem_store (demo_env 0) (post ?req) mem0)) = Some StatusOK"
    by (simp add: webhook_send_def demo_env_simps mem_store_find_bob status_of_respond)
  with same show ?thesis
    by simp
qed

subsection \<open>Who calls SaveMessages\<close>

lemma webhook_send_no_save:
  "filter is_SaveMessages (fst (snd (webhook_send st env req s))) = []"
  by (simp add: webhook_send_def split: prod.splits sum.splits)

lemma webhook_read_no_save:
  "filter is_SaveMessages (fst (snd (webhook_read st env req s))) = []"
  by (simp add: webhook_read_def Let_def split: prod.splits sum.splits option.splits)

lemma webhook_register_no_save:
  "filter is_SaveMessages (fst (snd (webhook_register st env req s))) = []"
  by (simp add: webhook_register_def Let_def split: prod.splits sum.splits option.splits)

lemma webhook_default_no_save:
  "filter is_SaveMessages (fst (snd (webhook_default st env req s))) = []"
  by (simp add: webhook_default_def Let_def split: prod.splits sum.splits option.splits)

lemma webhook_no_save: "filter is_SaveMessages (fst (snd (webhook st env r s))) = []"
  by (simp add: webhook_def webhook_send_no_save webhook_read_no_save webhook_register_no_save
      webhook_default_no_save split: sum.splits)

text \<open>
  C10 (only the flush loop saves). No call of the handler, on any request and any store,
  calls \<open>SaveMessages\<close>. A turn of the flush loop calls it only on a tick with a non-empty
  slice, once, with the whole slice as the argument; so along a run of the loop, each turn
  adds to the events either nothing or one \<open>SaveMessages\<close> call whose argument is the slice
  as the turns before have left it.
\<close>

theorem only_flush_loop_saves:
  "filter is_SaveMessages (fst (snd (webhook st env r s))) = []
   \<and> snd (flush_turn stw c (messages, sw))
       = (if c = TickerCase \<and> messages \<noteq> [] then [SaveMessagesCall messages] else [])
   \<and> snd (flush_loop stw (cs @ [c]) b)
       = snd (flush_loop stw cs b) @
         (if c = TickerCase \<and> fst (fst (flush_loop stw cs b)) \<noteq> []
          then [SaveMessagesCall (fst (fst (flush_loop stw cs b)))] else [])"
proof -
  have "snd (flush_loop stw (cs @ [c]) b)
       = snd (flush_loop stw cs b) @ snd (flush_turn stw c (fst (flush_loop stw cs b)))"
    by (simp add: flush_loop_append_snd flush_loop_Cons_snd del: flush_loop.simps(2))
  also have "snd (flush_turn stw c (fst (flush_loop stw cs b)))
       = (if c = TickerCase \<and> fst (fst (flush_loop stw cs b)) \<noteq> []
          then [SaveMessagesCall (fst (fst (flush_loop stw cs b)))] else [])"
    using flush_turn_events [of stw c "fst (fst (flush_loop stw cs b))"
        "snd (fst (flush_loop stw cs b))"]
    by simp
  finally show ?thesis
    using flush_turn_events [of stw c messages sw] webhook_no_save [of st env r s] by simp
qed

theorem only_flush_loop_saves_witness:
  "filter is_SaveMessages
     (fst (snd (webhook mem_store (demo_env 0)
                  (post (utterance ''u-alice'' False ''UTC'' (cmd_send @ '' bob hello''))) mem0)))
     = []
   \<and> snd (flush_loop mem_store [RecvCase again, RecvCase hello, TickerCase] ([], mem0))
     = [SaveMessagesCall [again, hello]]"
proof -
  have received: "flush_loop mem_store [RecvCase again, RecvCase hello] ([], mem0)
      = (([again, hello], mem0), [])"
    using flush_loop_recv [of mem_store "[again, hello]" "[]" mem0] by simp
  show ?thesis
    using only_flush_loop_saves [where st = mem_store and env = "demo_env 0" and s = mem0
        and r = "post (utterance ''u-alice'' False ''UTC'' (cmd_send @ '' bob hello''))"
        and stw = mem_store and cs = "[RecvCase again, RecvCase hello]" and c = TickerCase
        and b = "([], mem0)"]
    by (simp add: received del: flush_loop.simps(2))
qed

end
